theory Spec2Isabelle
  imports Main "HOL-Library.Word"
begin

unbundle bit_operations_syntax

chapter \<open>mysql-replay: protocol reconstruction and replay, embedded from the Go source\<close>

text \<open>
  The theory embeds the functions of \<^verbatim>\<open>stream/mysql.go\<close> and of the replay handler
  (\<^verbatim>\<open>sqlreplay.go\<close>) that the verified properties are about. Go values are modelled as
  follows: a \<^verbatim>\<open>[]byte\<close> is a list of 8-bit words, \<^verbatim>\<open>uint16/32/64\<close> are words of
  that width, \<^verbatim>\<open>int\<close> lengths and positions that never go negative are naturals, a
  struct is a record, a pointer that may be nil is an option, a Go map is a partial
  function. A run-time panic (index or slice bound out of range) is the value
  \<open>Panic\<close> of the result type, so that every panic of the source is a branch of the
  model.
\<close>

section \<open>Definitions\<close>

subsection \<open>Bytes, results\<close>

type_synonym byte = "8 word"

text \<open>The outcome of a decoder: a value, an error value (the text of the Go error), or a
  run-time panic.\<close>

datatype 'a result = Ok 'a | Err string | Panic

text \<open>Go's \<^verbatim>\<open>string(bs)\<close> for a byte slice: the same bytes, as characters.\<close>

definition string_of_bytes :: "byte list \<Rightarrow> string" where
  "string_of_bytes bs = map (\<lambda>b. char_of (unat b)) bs"

subsection \<open>Binary decoders (\<^verbatim>\<open>stream/mysql.go\<close>)\<close>

text \<open>\<^verbatim>\<open>parseLengthEncodedInt(b) (num uint64, isNull bool, n int)\<close>. The source indexes
  \<^verbatim>\<open>b\<close> without a length check; an index past the end panics.\<close>

definition parseLengthEncodedInt :: "byte list \<Rightarrow> (64 word \<times> bool \<times> nat) result" where
  "parseLengthEncodedInt b =
     (if length b < 1 then Panic
      else if b ! 0 = 0xfb then Ok (0, True, 1)
      else if b ! 0 = 0xfc then
        (if length b < 3 then Panic
         else Ok (ucast (b ! 1) OR push_bit 8 (ucast (b ! 2)), False, 3))
      else if b ! 0 = 0xfd then
        (if length b < 4 then Panic
         else Ok (ucast (b ! 1) OR push_bit 8 (ucast (b ! 2)) OR
                  push_bit 16 (ucast (b ! 3)), False, 4))
      else if b ! 0 = 0xfe then
        (if length b < 9 then Panic
         else Ok (ucast (b ! 1) OR push_bit 8 (ucast (b ! 2)) OR
                  push_bit 16 (ucast (b ! 3)) OR push_bit 24 (ucast (b ! 4)) OR
                  push_bit 32 (ucast (b ! 5)) OR push_bit 40 (ucast (b ! 6)) OR
                  push_bit 48 (ucast (b ! 7)) OR push_bit 56 (ucast (b ! 8)), False, 9))
      else Ok (ucast (b ! 0), False, 1))"


definition readUint32 :: "byte list \<Rightarrow> 32 word \<times> byte list \<times> bool" where
  "readUint32 data =
     (if length data < 4 then (0, data, False)
      else (ucast (data ! 0) OR push_bit 8 (ucast (data ! 1)) OR
            push_bit 16 (ucast (data ! 2)) OR push_bit 24 (ucast (data ! 3)),
            drop 4 data, True))"

text \<open>\<^verbatim>\<open>readBytesN(data, n)\<close> takes an \<^verbatim>\<open>int\<close>: with a negative \<^verbatim>\<open>n\<close> the length test
  passes and the slice expression \<^verbatim>\<open>data[:n]\<close> panics.\<close>

definition readBytesN :: "byte list \<Rightarrow> int \<Rightarrow> (byte list \<times> byte list \<times> bool) result" where
  "readBytesN data n =
     (if int (length data) < n then Ok ([], data, False)
      else if n < 0 then Panic
      else Ok (take (nat n) data, drop (nat n) data, True))"



text \<open>\<^verbatim>\<open>readLenEncUint(data) (uint64, []byte, bool)\<close>. The two- and three-byte forms
  put \<^verbatim>\<open>data[1]\<close> in the high byte, and the eight-byte form is read with
  \<^verbatim>\<open>binary.BigEndian.Uint64\<close>.\<close>

definition readLenEncUint :: "byte list \<Rightarrow> 64 word \<times> byte list \<times> bool" where
  "readLenEncUint data =
     (if length data < 1 then (0, data, False)
      else if data ! 0 < 0xfb then (ucast (data ! 0), drop 1 data, True)
      else if data ! 0 = 0xfc then
        (if length data < 3 then (0, data, False)
         else (ucast (data ! 2) OR push_bit 8 (ucast (data ! 1)), drop 3 data, True))
      else if data ! 0 = 0xfd then
        (if length data < 4 then (0, data, False)
         else (ucast (data ! 3) OR push_bit 8 (ucast (data ! 2)) OR
               push_bit 16 (ucast (data ! 1)), drop 4 data, True))
      else if data ! 0 = 0xfe then
        (if length data < 9 then (0, data, False)
         else (ucast (data ! 8) OR push_bit 8 (ucast (data ! 7)) OR
               push_bit 16 (ucast (data ! 6)) OR push_bit 24 (ucast (data ! 5)) OR
               push_bit 32 (ucast (data ! 4)) OR push_bit 40 (ucast (data ! 3)) OR
               push_bit 48 (ucast (data ! 2)) OR push_bit 56 (ucast (data ! 1)),
               drop 9 data, True))
      else (0, data, False))"

subsection \<open>Dynamic values and errors\<close>

text \<open>A Go \<^verbatim>\<open>interface{}\<close> / \<^verbatim>\<open>driver.Value\<close>: nil, or a value of one of the dynamic
  types the code produces or receives. Floating-point values are kept as their bit
  patterns (the code only moves them). \<open>VOther\<close> stands for a value of any other
  dynamic type.\<close>

datatype "value" =
    VNil
  | VUint64 nat
  | VInt64 int
  | VFloat32 "32 word"
  | VFloat64 "64 word"
  | VString string
  | VBytes "byte list"
  | VBool bool
  | VTime int
  | VOther string

text \<open>An \<^verbatim>\<open>error\<close> value. The code tells errors apart in two ways only: the type
  assertion \<^verbatim>\<open>err.(*mysql.MySQLError)\<close>, and the comparison of \<^verbatim>\<open>errors.Unwrap(err)\<close>
  with three sentinels. \<open>OtherError c t\<close> is an error that is not a
  \<^verbatim>\<open>*mysql.MySQLError\<close>, \<open>c\<close> being what \<^verbatim>\<open>errors.Unwrap\<close> returns for it
  (\<open>None\<close> for nil).\<close>

datatype cause = DeadlineExceeded | ErrConnDone | ErrInvalidConn | OtherCause

datatype goError =
    MySQLError (Number: "16 word") (Message: string)
  | OtherError (Unwrapped: "cause option") (Text: string)

fun Unwrap :: "goError \<Rightarrow> cause option" where
  "Unwrap (MySQLError n m) = None"
| "Unwrap (OtherError c t) = c"

subsection \<open>Replay-side result and events\<close>

text \<open>\<^verbatim>\<open>ReplayRes\<close>. The wall-clock fields \<^verbatim>\<open>SqlBeginTime\<close> and \<^verbatim>\<open>SqlEndTime\<close>
  (set from \<^verbatim>\<open>time.Now()\<close>) and the unused \<^verbatim>\<open>ColumnNum\<close>, \<^verbatim>\<open>ColNames\<close> are left
  out.\<close>

record ReplayRes =
  ErrNO :: "16 word"
  ErrDesc :: string
  SqlStatment :: string
  Values :: "value list"
  ColValues :: "value list list"

datatype eventType =
    EventQuery | EventStmtPrepare | EventStmtExecute | EventStmtClose
  | EventHandshake | EventQuit | EventOther

text \<open>\<^verbatim>\<open>stream.MySQLEvent\<close>, with the fields the replay handler reads. The fields carry
  the prefix \<open>e_\<close> (the FSM has fields of the same names).\<close>

record MySQLEvent =
  e_Type :: eventType
  e_Query :: string
  e_StmtID :: string
  e_Params :: "value list"
  e_DB :: string
  e_Rr :: ReplayRes

subsection \<open>Rendering rows (\<^verbatim>\<open>ConvertResToStr\<close>, \<^verbatim>\<open>ReadRowValues\<close>)\<close>

text \<open>\<^verbatim>\<open>ConvertAssignRows(a, &s)\<close> is defined outside the available source. It is the
  parameter \<open>conv\<close> of the functions that call it: \<open>conv v = Inr s\<close> when the
  conversion stores \<open>s\<close> and returns nil, \<open>conv v = Inl err\<close> when it returns
  \<open>err\<close>.\<close>

type_synonym convert = "value \<Rightarrow> goError + string"

text \<open>The inner loop of \<^verbatim>\<open>ConvertResToStr\<close> over the columns of one row; \<open>rowStr\<close>
  is the slice built so far.\<close>

fun ConvertResToStr_row :: "convert \<Rightarrow> value list \<Rightarrow> string list \<Rightarrow> goError + string list" where
  "ConvertResToStr_row conv [] rowStr = Inr rowStr"
| "ConvertResToStr_row conv (x # xs) rowStr =
     (if x = VNil then ConvertResToStr_row conv xs (rowStr @ [[]])
      else (case conv x of
              Inl err \<Rightarrow> Inl err
            | Inr c \<Rightarrow> ConvertResToStr_row conv xs (rowStr @ [c])))"

fun ConvertResToStr_rows :: "convert \<Rightarrow> value list list \<Rightarrow> string list list \<Rightarrow> goError + string list list" where
  "ConvertResToStr_rows conv [] resSet = Inr resSet"
| "ConvertResToStr_rows conv (r # rs) resSet =
     (case ConvertResToStr_row conv r [] of
        Inl err \<Rightarrow> Inl err
      | Inr rowStr \<Rightarrow> ConvertResToStr_rows conv rs (resSet @ [rowStr]))"

definition ConvertResToStr :: "convert \<Rightarrow> value list list \<Rightarrow> goError + string list list" where
  "ConvertResToStr conv v = ConvertResToStr_rows conv v []"

text \<open>The loop of \<^verbatim>\<open>ReadRowValues\<close> over \<^verbatim>\<open>lastcols\<close>. The state is the row \<open>rr\<close>
  built so far and the variable \<^verbatim>\<open>err\<close>, which every conversion assigns and which a
  nil column (\<^verbatim>\<open>continue\<close>) leaves as it is.\<close>

fun ReadRowValues_loop :: "convert \<Rightarrow> value list \<Rightarrow> value list \<times> goError option \<Rightarrow> value list \<times> goError option" where
  "ReadRowValues_loop conv [] (rr, err) = (rr, err)"
| "ReadRowValues_loop conv (x # xs) (rr, err) =
     (if x = VNil then ReadRowValues_loop conv xs (rr @ [VNil], err)
      else (case conv x of
              Inr a \<Rightarrow> ReadRowValues_loop conv xs (rr @ [VString a], None)
            | Inl er \<Rightarrow> ReadRowValues_loop conv xs (rr, Some er)))"

text \<open>\<^verbatim>\<open>ReadRowValues(f, e)\<close>; \<open>z\<close> is \<^verbatim>\<open>lastcols\<close> of the row \<^verbatim>\<open>f\<close> stands at.\<close>

definition ReadRowValues :: "convert \<Rightarrow> value list \<Rightarrow> MySQLEvent \<Rightarrow> MySQLEvent" where
  "ReadRowValues conv z e =
     (case ReadRowValues_loop conv z ([], None) of
        (rr, None) \<Rightarrow> e\<lparr>e_Rr := (e_Rr e)\<lparr>ColValues := ColValues (e_Rr e) @ [rr]\<rparr>\<rparr>
      | (rr, Some err) \<Rightarrow> e)"

text \<open>A conversion used in the examples below: it accepts byte strings and strings and
  rejects every other dynamic type.\<close>

definition example_conv :: convert where
  "example_conv v =
     (case v of
        VString t \<Rightarrow> Inr t
      | VBytes bs \<Rightarrow> Inr (string_of_bytes bs)
      | _ \<Rightarrow> Inl (OtherError None ''unsupported Scan''))"

definition example_event :: MySQLEvent where
  "example_event =
     \<lparr>e_Type = EventQuery, e_Query = ''select c, d from t'', e_StmtID = ''7'',
      e_Params = [], e_DB = ''test'',
      e_Rr = \<lparr>ErrNO = 0, ErrDesc = [], SqlStatment = [], Values = [], ColValues = []\<rparr>\<rparr>"

subsection \<open>The replay target\<close>

text \<open>The target server and the \<^verbatim>\<open>database/sql\<close> driver are collaborators of the replay
  handler. They are modelled as an oracle: every call the handler makes is appended to
  a trace, and the answer to a call is a function of the trace so far and of the call's
  arguments. Result rows are the list of the \<^verbatim>\<open>lastcols\<close> that \<^verbatim>\<open>rows.Next()\<close> steps
  through. The \<^verbatim>\<open>Close\<close> calls on statements, connections and pools only log their
  errors and are not traced.\<close>

datatype call =
    COpen string
  | CConn
  | CQuery string
  | CPrepare string
  | CStmtQuery string "value list"

record target =
  sqlOpen :: "call list \<Rightarrow> string \<Rightarrow> goError option"
  poolConn :: "call list \<Rightarrow> goError option"
  queryContext :: "call list \<Rightarrow> string \<Rightarrow> goError + value list list"
  prepareContext :: "call list \<Rightarrow> string \<Rightarrow> goError option"
  stmtQueryContext :: "call list \<Rightarrow> string \<Rightarrow> value list \<Rightarrow> goError + value list list"

subsection \<open>The replay handler (\<^verbatim>\<open>sqlreplay.go\<close>)\<close>

text \<open>A \<^verbatim>\<open>*sql.Stmt\<close> holds the text it was prepared with (\<^verbatim>\<open>getQuery\<close> reads it back);
  a \<^verbatim>\<open>*sql.DB\<close> is labelled with the schema it was opened for.\<close>

datatype sqlStmt = SqlStmt string

datatype sqlDB = SqlDB string

datatype sqlConn = SqlConn

record statement =
  s_query :: string
  s_handle :: "sqlStmt option"

text \<open>\<^verbatim>\<open>ReplayEventHandler\<close>, with the fields \<^verbatim>\<open>ApplyEvent\<close> and its callees use
  (prefix \<open>h_\<close>); \<open>h_Dsn\<close> is \<^verbatim>\<open>h.cfg.Dsn\<close>.\<close>

record ReplayEventHandler =
  h_Dsn :: string
  h_schema :: string
  h_pool :: "sqlDB option"
  h_conn :: "sqlConn option"
  h_stmts :: "string \<rightharpoonup> statement"

definition h_open :: "target \<Rightarrow> string \<Rightarrow> call list \<Rightarrow> (goError + sqlDB) \<times> call list" where
  "h_open srv schema tr =
     (case sqlOpen srv tr schema of
        Some err \<Rightarrow> (Inl err, tr @ [COpen schema])
      | None \<Rightarrow> (Inr (SqlDB schema), tr @ [COpen schema]))"

definition getConn :: "target \<Rightarrow> ReplayEventHandler \<Rightarrow> call list \<Rightarrow>
    goError option \<times> ReplayEventHandler \<times> call list" where
  "getConn srv h tr =
     (case (if h_pool h = None
            then (case h_open srv (h_schema h) tr of
                    (Inl err, tr1) \<Rightarrow> Inl (err, tr1)
                  | (Inr db, tr1) \<Rightarrow> Inr (h\<lparr>h_pool := Some db\<rparr>, tr1))
            else Inr (h, tr)) of
        Inl (err, tr1) \<Rightarrow> (Some err, h, tr1)
      | Inr (h1, tr1) \<Rightarrow>
          if h_conn h1 = None
          then (case poolConn srv tr1 of
                  Some err \<Rightarrow> (Some err, h1, tr1 @ [CConn])
                | None \<Rightarrow> (None, h1\<lparr>h_conn := Some SqlConn\<rparr>, tr1 @ [CConn]))
          else (None, h1, tr1))"

definition handshake :: "target \<Rightarrow> ReplayEventHandler \<Rightarrow> string \<Rightarrow> call list \<Rightarrow>
    goError option \<times> ReplayEventHandler \<times> call list" where
  "handshake srv h schema tr =
     (case h_open srv schema tr of
        (Inl err, tr1) \<Rightarrow> (Some err, h, tr1)
      | (Inr db, tr1) \<Rightarrow> getConn srv (h\<lparr>h_pool := Some db, h_schema := schema\<rparr>) tr1)"

text \<open>\<^verbatim>\<open>quit(reconnect)\<close>: every live handle is closed; with \<^verbatim>\<open>reconnect\<close> the entries
  stay, with a nil handle, otherwise they are deleted.\<close>

definition quit :: "bool \<Rightarrow> ReplayEventHandler \<Rightarrow> ReplayEventHandler" where
  "quit reconnect h =
     h\<lparr>h_stmts := (if reconnect
                    then (\<lambda>sid. map_option (\<lambda>stmt. stmt\<lparr>s_handle := None\<rparr>) (h_stmts h sid))
                    else Map.empty),
       h_conn := None,
       h_pool := None\<rparr>"

text \<open>The loop \<^verbatim>\<open>for rows.Next() { h.ReadRowValues(rows, e) }\<close>.\<close>

definition readRows :: "convert \<Rightarrow> value list list \<Rightarrow> MySQLEvent \<Rightarrow> MySQLEvent" where
  "readRows conv rows e = foldl (\<lambda>e1 z. ReadRowValues conv z e1) e rows"

definition execute :: "convert \<Rightarrow> target \<Rightarrow> ReplayEventHandler \<Rightarrow> string \<Rightarrow> MySQLEvent \<Rightarrow>
    call list \<Rightarrow> goError option \<times> ReplayEventHandler \<times> MySQLEvent \<times> call list" where
  "execute conv srv h query e tr =
     (case getConn srv h tr of
        (Some err, h1, tr1) \<Rightarrow> (Some err, h1, e, tr1)
      | (None, h1, tr1) \<Rightarrow>
          (let e1 = e\<lparr>e_Rr := (e_Rr e)\<lparr>SqlStatment := query\<rparr>\<rparr> in
           case queryContext srv tr1 query of
             Inl err \<Rightarrow> (Some err, h1, e1, tr1 @ [CQuery query])
           | Inr rows \<Rightarrow> (None, h1, readRows conv rows e1, tr1 @ [CQuery query])))"

definition stmtPrepare :: "target \<Rightarrow> ReplayEventHandler \<Rightarrow> string \<Rightarrow> string \<Rightarrow> call list \<Rightarrow>
    goError option \<times> ReplayEventHandler \<times> call list" where
  "stmtPrepare srv h sid query tr =
     (case getConn srv (h\<lparr>h_stmts := (h_stmts h)(sid := None)\<rparr>) tr of
        (Some err, h1, tr1) \<Rightarrow> (Some err, h1, tr1)
      | (None, h1, tr1) \<Rightarrow>
          (case prepareContext srv tr1 query of
             Some err \<Rightarrow> (Some err, h1, tr1 @ [CPrepare query])
           | None \<Rightarrow>
               (None,
                h1\<lparr>h_stmts := (h_stmts h1)
                     (sid \<mapsto> \<lparr>s_query = query, s_handle = Some (SqlStmt query)\<rparr>)\<rparr>,
                tr1 @ [CPrepare query])))"

definition getStmt :: "target \<Rightarrow> ReplayEventHandler \<Rightarrow> string \<Rightarrow> call list \<Rightarrow>
    (goError + sqlStmt) \<times> ReplayEventHandler \<times> call list" where
  "getStmt srv h sid tr =
     (case h_stmts h sid of
        None \<Rightarrow> (Inl (OtherError None ''no such statement''), h, tr)
      | Some stmt \<Rightarrow>
          (case s_handle stmt of
             Some hdl \<Rightarrow> (Inr hdl, h, tr)
           | None \<Rightarrow>
               (case getConn srv h tr of
                  (Some err, h1, tr1) \<Rightarrow> (Inl err, h1, tr1)
                | (None, h1, tr1) \<Rightarrow>
                    (case prepareContext srv tr1 (s_query stmt) of
                       Some err \<Rightarrow> (Inl err, h1, tr1 @ [CPrepare (s_query stmt)])
                     | None \<Rightarrow>
                         (Inr (SqlStmt (s_query stmt)),
                          h1\<lparr>h_stmts := (h_stmts h1)
                               (sid \<mapsto> stmt\<lparr>s_handle := Some (SqlStmt (s_query stmt))\<rparr>)\<rparr>,
                          tr1 @ [CPrepare (s_query stmt)])))))"

definition stmtExecute :: "convert \<Rightarrow> target \<Rightarrow> ReplayEventHandler \<Rightarrow> string \<Rightarrow> value list \<Rightarrow>
    MySQLEvent \<Rightarrow> call list \<Rightarrow> goError option \<times> ReplayEventHandler \<times> MySQLEvent \<times> call list" where
  "stmtExecute conv srv h sid params e tr =
     (case getStmt srv h sid tr of
        (Inl err, h1, tr1) \<Rightarrow> (Some err, h1, e, tr1)
      | (Inr (SqlStmt q), h1, tr1) \<Rightarrow>
          (let e1 = e\<lparr>e_Rr := (e_Rr e)\<lparr>SqlStatment := q, Values := params\<rparr>\<rparr> in
           case stmtQueryContext srv tr1 q params of
             Inl err \<Rightarrow> (Some err, h1, e1, tr1 @ [CStmtQuery q params])
           | Inr rows \<Rightarrow> (None, h1, readRows conv rows e1, tr1 @ [CStmtQuery q params])))"

definition stmtClose :: "ReplayEventHandler \<Rightarrow> string \<Rightarrow> ReplayEventHandler" where
  "stmtClose h sid = h\<lparr>h_stmts := (h_stmts h)(sid := None)\<rparr>"

text \<open>The two tests \<^verbatim>\<open>ApplyEvent\<close> makes on an error: the lock-wait test
  (a \<^verbatim>\<open>*mysql.MySQLError\<close> with number 1205) and the connection-loss test on
  \<^verbatim>\<open>errors.Unwrap(err)\<close>.\<close>

definition isLockWait :: "goError option \<Rightarrow> bool" where
  "isLockWait err =
     (case err of
        Some (MySQLError num msg) \<Rightarrow> num = 1205
      | _ \<Rightarrow> False)"

definition isConnLoss :: "goError \<Rightarrow> bool" where
  "isConnLoss err =
     (Unwrap err = Some DeadlineExceeded \<or> Unwrap err = Some ErrConnDone \<or>
      Unwrap err = Some ErrInvalidConn)"

text \<open>\<^verbatim>\<open>e.Rr.ColValues = e.Rr.ColValues[:0][:0]\<close>.\<close>

definition clearColValues :: "MySQLEvent \<Rightarrow> MySQLEvent" where
  "clearColValues e = e\<lparr>e_Rr := (e_Rr e)\<lparr>ColValues := take 0 (take 0 (ColValues (e_Rr e)))\<rparr>\<rparr>"

text \<open>The \<^verbatim>\<open>goto\<close> loops of \<^verbatim>\<open>ApplyEvent\<close> have no bound in the source. They are
  modelled with fuel: the first argument bounds the number of passes through the label,
  and \<open>None\<close> means that the fuel ran out before the loop was left.\<close>

type_synonym applied = "goError option \<times> ReplayEventHandler \<times> MySQLEvent \<times> call list"

fun RETRYCOMQUERY :: "nat \<Rightarrow> convert \<Rightarrow> target \<Rightarrow> ReplayEventHandler \<Rightarrow> MySQLEvent \<Rightarrow>
    call list \<Rightarrow> applied option" where
  "RETRYCOMQUERY 0 conv srv h e tr = None"
| "RETRYCOMQUERY (Suc n) conv srv h e tr =
     (case execute conv srv h (e_Query e) e tr of
        (err, h1, e1, tr1) \<Rightarrow>
          if isLockWait err
          then RETRYCOMQUERY n conv srv h1 (clearColValues e1) tr1
          else Some (err, h1, e1, tr1))"

fun RETRYCOMSTMTEXECUTE :: "nat \<Rightarrow> convert \<Rightarrow> target \<Rightarrow> ReplayEventHandler \<Rightarrow> MySQLEvent \<Rightarrow>
    call list \<Rightarrow> applied option" where
  "RETRYCOMSTMTEXECUTE 0 conv srv h e tr = None"
| "RETRYCOMSTMTEXECUTE (Suc n) conv srv h e tr =
     (case stmtExecute conv srv h (e_StmtID e) (e_Params e) e tr of
        (err, h1, e1, tr1) \<Rightarrow>
          if isLockWait err
          then RETRYCOMSTMTEXECUTE n conv srv h1 (clearColValues e1) tr1
          else Some (err, h1, e1, tr1))"

text \<open>The \<^verbatim>\<open>switch e.Type\<close> of \<^verbatim>\<open>ApplyEvent\<close>. The first component of the result tells
  whether the case left the function with \<^verbatim>\<open>return err\<close> (the unknown-statement case)
  instead of falling through to the test of \<^verbatim>\<open>err\<close> after the switch.\<close>

definition ApplyEvent_switch :: "nat \<Rightarrow> convert \<Rightarrow> target \<Rightarrow> ReplayEventHandler \<Rightarrow>
    MySQLEvent \<Rightarrow> call list \<Rightarrow> (bool \<times> applied) option" where
  "ApplyEvent_switch n conv srv h e tr =
     (case e_Type e of
        EventQuery \<Rightarrow>
          map_option (Pair False)
            (RETRYCOMQUERY n conv srv h (e\<lparr>e_Rr := (e_Rr e)\<lparr>ColValues := []\<rparr>\<rparr>) tr)
      | EventStmtPrepare \<Rightarrow>
          (case stmtPrepare srv h (e_StmtID e) (e_Query e) tr of
             (None, h1, tr1) \<Rightarrow> Some (False, None, h1, e, tr1)
           | (Some (MySQLError num msg), h1, tr1) \<Rightarrow>
               Some (False, Some (MySQLError num msg), h1, e, tr1)
           | (Some (OtherError c t), h1, tr1) \<Rightarrow>
               Some (False, Some (OtherError c t), h1,
                     e\<lparr>e_Rr := (e_Rr e)\<lparr>ErrNO := 20000,
                          ErrDesc := ''exec sql fail and covert  to mysql error struct err''\<rparr>\<rparr>,
                     tr1))
      | EventStmtExecute \<Rightarrow>
          (case h_stmts h (e_StmtID e) of
             Some stmt \<Rightarrow>
               map_option (Pair False)
                 (RETRYCOMSTMTEXECUTE n conv srv h (e\<lparr>e_Rr := (e_Rr e)\<lparr>ColValues := []\<rparr>\<rparr>) tr)
           | None \<Rightarrow>
               Some (True,
                     Some (MySQLError 10000 (e_StmtID e @ '' is not exist , maybe prepare fail'')),
                     h, e, tr))
      | EventStmtClose \<Rightarrow> Some (False, None, stmtClose h (e_StmtID e), e, tr)
      | EventHandshake \<Rightarrow>
          (case handshake srv (quit False h) (e_DB e) tr of
             (err, h1, tr1) \<Rightarrow> Some (False, err, h1, e, tr1))
      | EventQuit \<Rightarrow> Some (False, None, quit False h, e, tr)
      | EventOther \<Rightarrow> Some (False, None, h, e, tr))"

text \<open>The body of \<^verbatim>\<open>ApplyEvent\<close> from the label \<^verbatim>\<open>LOOP\<close> on: the switch, then the test
  of \<^verbatim>\<open>err\<close>; a connection-loss error leads to \<^verbatim>\<open>quit(true)\<close>,
  \<^verbatim>\<open>handshake(ctx, h.schema)\<close> and, when that succeeds, \<^verbatim>\<open>goto LOOP\<close>.\<close>

fun ApplyEvent_LOOP :: "nat \<Rightarrow> convert \<Rightarrow> target \<Rightarrow> ReplayEventHandler \<Rightarrow> MySQLEvent \<Rightarrow>
    call list \<Rightarrow> applied option" where
  "ApplyEvent_LOOP 0 conv srv h e tr = None"
| "ApplyEvent_LOOP (Suc n) conv srv h e tr =
     (case ApplyEvent_switch n conv srv h e tr of
        None \<Rightarrow> None
      | Some (True, r) \<Rightarrow> Some r
      | Some (False, None, h1, e1, tr1) \<Rightarrow> Some (None, h1, e1, tr1)
      | Some (False, Some err, h1, e1, tr1) \<Rightarrow>
          if isConnLoss err
          then (case handshake srv (quit True h1) (h_schema (quit True h1)) tr1 of
                  (Some err2, h2, tr2) \<Rightarrow> Some (Some err2, h2, e1, tr2)
                | (None, h2, tr2) \<Rightarrow> ApplyEvent_LOOP n conv srv h2 e1 tr2)
          else Some (Some err, h1, e1, tr1))"

definition ApplyEvent :: "nat \<Rightarrow> convert \<Rightarrow> target \<Rightarrow> ReplayEventHandler \<Rightarrow> MySQLEvent \<Rightarrow>
    call list \<Rightarrow> applied option" where
  "ApplyEvent n conv srv h e tr =
     (if length (h_Dsn h) = 0 then Some (None, h, e, tr)
      else ApplyEvent_LOOP n conv srv h e tr)"

text \<open>\<^verbatim>\<open>ReplayEventAndWriteRes\<close>: the error \<^verbatim>\<open>ApplyEvent\<close> returns is recorded on the
  event's replay-side result, and the event is handed to the writer. The result is the
  handler, the event as handed over, and the trace.\<close>

definition ReplayEventAndWriteRes :: "nat \<Rightarrow> convert \<Rightarrow> target \<Rightarrow> ReplayEventHandler \<Rightarrow>
    MySQLEvent \<Rightarrow> call list \<Rightarrow> (ReplayEventHandler \<times> MySQLEvent \<times> call list) option" where
  "ReplayEventAndWriteRes n conv srv h e tr =
     (case ApplyEvent n conv srv h e tr of
        None \<Rightarrow> None
      | Some (None, h1, e1, tr1) \<Rightarrow> Some (h1, e1, tr1)
      | Some (Some (MySQLError num msg), h1, e1, tr1) \<Rightarrow>
          Some (h1, e1\<lparr>e_Rr := (e_Rr e1)\<lparr>ErrNO := num, ErrDesc := msg\<rparr>\<rparr>, tr1)
      | Some (Some (OtherError c t), h1, e1, tr1) \<Rightarrow>
          Some (h1,
                e1\<lparr>e_Rr := (e_Rr e1)\<lparr>ErrNO := 20000,
                     ErrDesc := ''Failed to execute SQL and failed to convert to mysql error''\<rparr>\<rparr>,
                tr1))"

subsection \<open>Example data\<close>

text \<open>A handler with a live connection and one prepared statement, events, and a target
  that fails the first \<open>k\<close> executions with a given error and then returns one row.
  They are the concrete inputs of the examples in the second part.\<close>

definition example_rows :: "value list list" where
  "example_rows = [[VString ''1'', VNil]]"

fun is_execution :: "call \<Rightarrow> bool" where
  "is_execution (CQuery q) = True"
| "is_execution (CStmtQuery q ps) = True"
| "is_execution c = False"

definition failing_target :: "goError \<Rightarrow> nat \<Rightarrow> target" where
  "failing_target err k =
     \<lparr>sqlOpen = (\<lambda>tr schema. None),
      poolConn = (\<lambda>tr. None),
      queryContext = (\<lambda>tr q. if length (filter is_execution tr) < k then Inl err
                              else Inr example_rows),
      prepareContext = (\<lambda>tr q. None),
      stmtQueryContext = (\<lambda>tr q ps. if length (filter is_execution tr) < k then Inl err
                                     else Inr example_rows)\<rparr>"

definition lock_wait :: goError where
  "lock_wait = MySQLError 1205 ''Lock wait timeout exceeded; try restarting transaction''"

definition conn_closed :: goError where
  "conn_closed = OtherError (Some ErrConnDone) ''sql: connection is already closed''"

text \<open>The sentinel \<^verbatim>\<open>sql.ErrConnDone\<close> itself, as \<^verbatim>\<open>database/sql\<close> returns it from a
  query on a closed connection. It wraps no other error, so \<^verbatim>\<open>errors.Unwrap\<close> returns
  nil for it. (The same holds for \<^verbatim>\<open>mysql.ErrInvalidConn\<close> and
  \<^verbatim>\<open>context.DeadlineExceeded\<close>.) \<open>conn_closed\<close> above is an error that wraps the
  sentinel.\<close>

definition sql_ErrConnDone :: goError where
  "sql_ErrConnDone = OtherError None ''sql: connection is already closed''"

text \<open>A target that answers the first execution with the lock wait timeout, the second
  with the wrapped connection loss and the third with rows; and an event whose row
  buffer holds a row of an earlier attempt.\<close>

definition contended_target :: target where
  "contended_target =
     \<lparr>sqlOpen = (\<lambda>tr schema. None),
      poolConn = (\<lambda>tr. None),
      queryContext = (\<lambda>tr q. if length (filter is_execution tr) = 0 then Inl lock_wait
                              else if length (filter is_execution tr) = 1 then Inl conn_closed
                              else Inr example_rows),
      prepareContext = (\<lambda>tr q. None),
      stmtQueryContext = (\<lambda>tr q ps. if length (filter is_execution tr) = 0 then Inl lock_wait
                                     else if length (filter is_execution tr) = 1
                                     then Inl conn_closed
                                     else Inr example_rows)\<rparr>"

definition stale_event :: MySQLEvent where
  "stale_event = example_event\<lparr>e_Rr := (e_Rr example_event)\<lparr>ColValues := [[VString ''old'']]\<rparr>\<rparr>"

definition example_handler :: ReplayEventHandler where
  "example_handler =
     \<lparr>h_Dsn = ''root@tcp(127.0.0.1:4000)/'', h_schema = ''test'',
      h_pool = Some (SqlDB ''test''), h_conn = Some SqlConn,
      h_stmts = [''7'' \<mapsto> \<lparr>s_query = ''select ?'', s_handle = Some (SqlStmt ''select ?'')\<rparr>]\<rparr>"

definition example_execute :: MySQLEvent where
  "example_execute = example_event\<lparr>e_Type := EventStmtExecute, e_Params := [VInt64 1]\<rparr>"


definition capture_only_handler :: ReplayEventHandler where
  "capture_only_handler = example_handler\<lparr>h_Dsn := []\<rparr>"

definition unknown_execute :: MySQLEvent where
  "unknown_execute = example_event\<lparr>e_Type := EventStmtExecute, e_StmtID := ''99''\<rparr>"

subsection \<open>Frames and the session (\<^verbatim>\<open>MySQLFSM\<close>)\<close>

text \<open>\<^verbatim>\<open>MySQLPacket\<close> is declared outside the available source; the record has the
  fields the FSM reads. \<open>Time\<close> is \<^verbatim>\<open>uint64(pkt.Time.UnixNano())\<close>.\<close>

datatype direction = TCPDirClientToServer | TCPDirServerToClient

record MySQLPacket =
  Seq :: int
  Len :: int
  Data :: "byte list"
  Dir :: direction
  Time :: "64 word"

text \<open>The states \<^verbatim>\<open>util.State...\<close> (the cases of the switch in \<^verbatim>\<open>StateName\<close>).\<close>

datatype fsmState =
    StateInit | StateUnknown | StateComQuery | StateComQuery1 | StateComQuery2
  | StateComStmtExecute | StateComStmtExecute1 | StateComStmtExecute2
  | StateComStmtClose | StateComStmtPrepare0 | StateComStmtPrepare1
  | StateComQuit | StateHandshake0 | StateHandshake1 | StateSkipPacket

record Stmt =
  ID :: "32 word"
  Query :: string
  NumParams :: nat
  types :: "byte list option"

text \<open>The result set of \<^verbatim>\<open>textRows\<close> / \<^verbatim>\<open>binaryRows\<close> (declared outside the available
  source): the fields \<^verbatim>\<open>rs.columns\<close> (names), \<^verbatim>\<open>rs.columnValue\<close> and \<^verbatim>\<open>rs.done\<close>.\<close>

record resultSet =
  rs_columns :: "string list"
  rs_columnValue :: "value list list"
  rs_done :: bool

record PacketRes =
  errNo :: "16 word"
  errDesc :: string
  affectedRows :: "64 word"
  insertId :: "64 word"
  status :: "16 word"
  parseTime :: bool
  packetnum :: nat
  sqlBeginTime :: "64 word"
  sqlEndTime :: "64 word"
  columnNum :: nat
  bRows :: "resultSet option"
  tRows :: "resultSet option"
  readColEnd :: bool
  ifReadColEndEofPacket :: bool
  ifReadResEnd :: bool

text \<open>\<^verbatim>\<open>MySQLFSM\<close> without its logger and channel. \<^verbatim>\<open>fsm.pr\<close> is a pointer that is nil
  until the first \<^verbatim>\<open>InitValue\<close>; it is read only after that, and the record holds the
  value it points to.\<close>

record MySQLFSM =
  changed :: bool
  state :: fsmState
  query :: string
  stmt :: Stmt
  params :: "value list"
  schema :: string
  username :: string
  stmts :: "32 word \<rightharpoonup> Stmt"
  data :: "byte list"
  packets :: "MySQLPacket list"
  start :: nat
  count :: nat
  pr :: PacketRes

text \<open>The constants of the wire protocol (\<^verbatim>\<open>maxPacketSize\<close>, the command bytes, the
  handshake versions, the capability flags) and the table of field types are declared
  outside the available source. They are parameters, collected in one record; the byte
  of a field type is classified by \<open>fieldTypeOf\<close>, which says which of the constants
  of the switch in \<^verbatim>\<open>parseExecParams\<close> it equals.\<close>

datatype fieldType =
    fieldTypeNULL | fieldTypeTiny | fieldTypeShort | fieldTypeYear | fieldTypeInt24
  | fieldTypeLong | fieldTypeLongLong | fieldTypeFloat | fieldTypeDouble
  | fieldTypeDate | fieldTypeTimestamp | fieldTypeDateTime | fieldTypeTime
  | fieldTypeNewDecimal | fieldTypeDecimal | fieldTypeVarChar | fieldTypeVarString
  | fieldTypeString | fieldTypeEnum | fieldTypeSet | fieldTypeGeometry | fieldTypeBit
  | fieldTypeBLOB | fieldTypeTinyBLOB | fieldTypeMediumBLOB | fieldTypeLongBLOB
  | fieldTypeOther

record protocol =
  maxPacketSize :: int
  comQuit :: byte
  comQuery :: byte
  comStmtPrepare :: byte
  comStmtExecute :: byte
  comStmtClose :: byte
  handshakeV9 :: byte
  handshakeV10 :: byte
  clientProtocol41 :: "32 word"
  clientSecureConn :: "32 word"
  clientPluginAuthLenEncClientData :: "32 word"
  clientConnectWithDB :: "32 word"
  fieldTypeOf :: "byte \<Rightarrow> fieldType"

subsection \<open>Reassembly: \<^verbatim>\<open>Ready\<close>, \<^verbatim>\<open>nextSeq\<close>, \<^verbatim>\<open>load\<close>\<close>



text \<open>The inner loop of \<^verbatim>\<open>load\<close>:
  \<^verbatim>\<open>for j < len(fsm.packets) && fsm.packets[j].Len == maxPacketSize { j += 1 }\<close>.\<close>

function load_scan :: "protocol \<Rightarrow> MySQLPacket list \<Rightarrow> nat \<Rightarrow> nat" where
  "load_scan c ps j =
     (if j < length ps \<and> Len (ps ! j) = maxPacketSize c then load_scan c ps (j + 1) else j)"
  by pat_completeness auto
termination
  by (relation "measure (\<lambda>(c, ps, j). length ps - j)") auto

declare load_scan.simps [simp del]

text \<open>The copying loop \<^verbatim>\<open>for k <= j { fsm.data.Write(fsm.packets[k].Data); k += 1 }\<close>;
  it runs with \<^verbatim>\<open>j < len(fsm.packets)\<close>.\<close>

function load_write :: "MySQLPacket list \<Rightarrow> nat \<Rightarrow> nat \<Rightarrow> byte list \<Rightarrow> byte list" where
  "load_write ps k j buf =
     (if k \<le> j then load_write ps (k + 1) j (buf @ Data (ps ! k)) else buf)"
  by pat_completeness auto
termination
  by (relation "measure (\<lambda>(ps, k, j, buf). Suc j - k)") auto

declare load_write.simps [simp del]

lemma load_scan_ge: "j \<le> load_scan c ps j"
proof (induction c ps j rule: load_scan.induct)
  case (1 c ps j)
  show ?case
  proof (cases "j < length ps \<and> Len (ps ! j) = maxPacketSize c")
    case True
    with "1" have "j + 1 \<le> load_scan c ps (j + 1)" by simp
    moreover from True have "load_scan c ps j = load_scan c ps (j + 1)"
      by (subst load_scan.simps) simp
    ultimately show ?thesis by simp
  next
    case False
    then have "load_scan c ps j = j"
      by (subst load_scan.simps) auto
    then show ?thesis by simp
  qed
qed

text \<open>The outer loop of \<^verbatim>\<open>load\<close> from the index \<open>i\<close>. The result is the new content
  of \<^verbatim>\<open>fsm.data\<close> with \<^verbatim>\<open>fsm.start\<close> and \<^verbatim>\<open>fsm.count\<close>, or \<open>None\<close> for
  \<^verbatim>\<open>return false\<close>.\<close>

function load_from :: "protocol \<Rightarrow> MySQLPacket list \<Rightarrow> nat \<Rightarrow> nat \<Rightarrow> (byte list \<times> nat \<times> nat) option" where
  "load_from c ps k i =
     (if i < length ps then
        (let j = load_scan c ps i in
         if j = length ps then None
         else if i = k then Some (load_write ps k j [], i, j - i + 1)
         else load_from c ps k (j + 1))
      else None)"
  by pat_completeness auto
termination
proof (relation "measure (\<lambda>(c, ps, k, i). length ps - i)")
  show "wf (measure (\<lambda>(c, ps, k, i). length ps - i))" by simp
next
  fix c :: protocol and ps :: "MySQLPacket list" and k i j :: nat
  assume "i < length ps" and "j = load_scan c ps i"
  then show "((c, ps, k, j + 1), (c, ps, k, i)) \<in> measure (\<lambda>(c, ps, k, i). length ps - i)"
    using load_scan_ge [of i c ps] by simp
qed

declare load_from.simps [simp del]

definition load :: "protocol \<Rightarrow> nat \<Rightarrow> MySQLFSM \<Rightarrow> bool \<times> MySQLFSM" where
  "load c k fsm =
     (case load_from c (packets fsm) k 0 of
        None \<Rightarrow> (False, fsm)
      | Some (buf, s, n) \<Rightarrow> (True, fsm\<lparr>data := buf, start := s, count := n\<rparr>))"

subsection \<open>Decoding of execute parameters (\<^verbatim>\<open>parseExecParams\<close>)\<close>

text \<open>Little-endian reads at a position (\<^verbatim>\<open>binary.LittleEndian.Uint16/32/64\<close> of a
  slice of the buffer); the callers check the length first.\<close>

definition le16 :: "byte list \<Rightarrow> nat \<Rightarrow> 16 word" where
  "le16 b pos = ucast (b ! pos) OR push_bit 8 (ucast (b ! (pos + 1)))"

definition le32 :: "byte list \<Rightarrow> nat \<Rightarrow> 32 word" where
  "le32 b pos =
     ucast (b ! pos) OR push_bit 8 (ucast (b ! (pos + 1))) OR
     push_bit 16 (ucast (b ! (pos + 2))) OR push_bit 24 (ucast (b ! (pos + 3)))"

definition le64 :: "byte list \<Rightarrow> nat \<Rightarrow> 64 word" where
  "le64 b pos =
     ucast (b ! pos) OR push_bit 8 (ucast (b ! (pos + 1))) OR
     push_bit 16 (ucast (b ! (pos + 2))) OR push_bit 24 (ucast (b ! (pos + 3))) OR
     push_bit 32 (ucast (b ! (pos + 4))) OR push_bit 40 (ucast (b ! (pos + 5))) OR
     push_bit 48 (ucast (b ! (pos + 6))) OR push_bit 56 (ucast (b ! (pos + 7)))"

text \<open>\<^verbatim>\<open>fmt.Sprintf\<close> with the verbs \<^verbatim>\<open>%d\<close> and \<^verbatim>\<open>%0wd\<close> on unsigned values: the
  decimal digits, padded on the left with zeros to the width \<open>w\<close>.\<close>

definition digit :: "nat \<Rightarrow> char" where
  "digit d = ''0123456789'' ! d"

function decimal :: "nat \<Rightarrow> string" where
  "decimal n = (if n < 10 then [digit n] else decimal (n div 10) @ [digit (n mod 10)])"
  by pat_completeness auto
termination
  by (relation "measure (\<lambda>n. n)") auto

declare decimal.simps [simp del]

definition zeropad :: "nat \<Rightarrow> nat \<Rightarrow> string" where
  "zeropad w n = replicate (w - length (decimal n)) (CHR ''0'') @ decimal n"

text \<open>The date and time helpers index and slice \<^verbatim>\<open>paramValues\<close> without a length check.
  Go checks an index expression against the length of the slice and a slice expression
  \<^verbatim>\<open>paramValues[pos : pos+k]\<close> against its capacity. \<^verbatim>\<open>paramValues\<close> is a tail of
  \<^verbatim>\<open>fsm.data.Bytes()\<close>, so its capacity reaches to the end of the array of the
  \<^verbatim>\<open>bytes.Buffer\<close>, which keeps its array across \<^verbatim>\<open>Reset\<close>: behind the bytes of the
  request lie \<open>spare\<close> bytes, left by earlier requests or by the allocator. A slice
  expression that ends within the capacity does not panic and reads them.

  In \<^verbatim>\<open>parseBinaryDate\<close> and \<^verbatim>\<open>parseBinaryTime\<close> the slice expression is followed by
  index expressions at higher positions, so that they panic exactly when the length is
  too short, and read nothing behind it. In \<^verbatim>\<open>parseBinaryTimestamp\<close> and
  \<^verbatim>\<open>parseBinaryTimeWithMS\<close> the four bytes of the microseconds are read by a slice
  expression that nothing follows: it panics only when the capacity is too short, and
  otherwise reads \<^verbatim>\<open>paramValues\<close> followed by the spare bytes.\<close>

definition parseBinaryDate :: "nat \<Rightarrow> byte list \<Rightarrow> (nat \<times> string) result" where
  "parseBinaryDate pos paramValues =
     (if length paramValues < pos + 4 then Panic
      else Ok (pos + 4,
               zeropad 4 (unat (le16 paramValues pos)) @ ''-'' @
               zeropad 2 (unat (paramValues ! (pos + 2))) @ ''-'' @
               zeropad 2 (unat (paramValues ! (pos + 3)))))"

definition parseBinaryDateTimeReply :: "nat \<Rightarrow> byte list \<Rightarrow> (nat \<times> string) result" where
  "parseBinaryDateTimeReply pos paramValues =
     (case parseBinaryDate pos paramValues of
        Ok (pos1, date) \<Rightarrow>
          if length paramValues < pos1 + 3 then Panic
          else Ok (pos1 + 3,
                   date @ '' '' @ zeropad 2 (unat (paramValues ! pos1)) @ '':'' @
                   zeropad 2 (unat (paramValues ! (pos1 + 1))) @ '':'' @
                   zeropad 2 (unat (paramValues ! (pos1 + 2))))
      | Err e \<Rightarrow> Err e
      | Panic \<Rightarrow> Panic)"

definition parseBinaryTimestamp :: "nat \<Rightarrow> byte list \<Rightarrow> byte list \<Rightarrow> (nat \<times> string) result" where
  "parseBinaryTimestamp pos paramValues spare =
     (case parseBinaryDateTimeReply pos paramValues of
        Ok (pos1, dateTime) \<Rightarrow>
          if length paramValues + length spare < pos1 + 4 then Panic
          else Ok (pos1 + 4,
                   dateTime @ ''.'' @ zeropad 6 (unat (le32 (paramValues @ spare) pos1)))
      | Err e \<Rightarrow> Err e
      | Panic \<Rightarrow> Panic)"

definition parseBinaryTime :: "nat \<Rightarrow> byte list \<Rightarrow> byte \<Rightarrow> (nat \<times> string) result" where
  "parseBinaryTime pos paramValues isNegative =
     (if length paramValues < pos + 7 then Panic
      else Ok (pos + 7,
               (if isNegative = 1 then ''-'' else '''') @
               decimal (unat (le32 paramValues pos)) @ '' '' @
               zeropad 2 (unat (paramValues ! (pos + 4))) @ '':'' @
               zeropad 2 (unat (paramValues ! (pos + 5))) @ '':'' @
               zeropad 2 (unat (paramValues ! (pos + 6)))))"

definition parseBinaryTimeWithMS :: "nat \<Rightarrow> byte list \<Rightarrow> byte list \<Rightarrow> byte \<Rightarrow>
    (nat \<times> string) result" where
  "parseBinaryTimeWithMS pos paramValues spare isNegative =
     (case parseBinaryTime pos paramValues isNegative of
        Ok (pos1, dur) \<Rightarrow>
          if length paramValues + length spare < pos1 + 4 then Panic
          else Ok (pos1 + 4, dur @ ''.'' @ zeropad 6 (unat (le32 (paramValues @ spare) pos1)))
      | Err e \<Rightarrow> Err e
      | Panic \<Rightarrow> Panic)"

text \<open>\<^verbatim>\<open>parseLengthEncodedBytes(b)\<close>. \<^verbatim>\<open>n += int(num)\<close> is 64-bit signed arithmetic:
  \<open>n'\<close> is the wrapped sum. A sum below the prefix length (negative, or wrapped
  around) passes the test \<^verbatim>\<open>len(b) >= n\<close> and makes the slice expression panic. The
  error is \<^verbatim>\<open>io.EOF\<close>.\<close>

definition parseLengthEncodedBytes :: "byte list \<Rightarrow> (byte list \<times> bool \<times> nat) result" where
  "parseLengthEncodedBytes b =
     (case parseLengthEncodedInt b of
        Ok (num, isNull, n) \<Rightarrow>
          if num < 1 then Ok ([], isNull, n)
          else
            (let n' = sint (word_of_nat n + num :: 64 word) in
             if int (length b) \<ge> n'
             then (if n' < int n then Panic
                   else Ok (take (nat n' - n) (drop n b), False, nat n'))
             else Err ''EOF'')
      | Err e \<Rightarrow> Err e
      | Panic \<Rightarrow> Panic)"

text \<open>The body of the \<^verbatim>\<open>switch tp\<close> for one parameter: from the type, the signedness
  flag and the position it gives the new position and the value stored in
  \<^verbatim>\<open>params[i]\<close>. After a timestamp or a time that was completed from the spare bytes
  the position lies behind the end of \<^verbatim>\<open>paramValues\<close>; every case tests the length
  before it reads.\<close>

definition decodeParam :: "fieldType \<Rightarrow> bool \<Rightarrow> byte list \<Rightarrow> byte list \<Rightarrow> nat \<Rightarrow>
    (nat \<times> value) result" where
  "decodeParam tp isUnsigned paramValues spare pos =
     (if tp = fieldTypeNULL then Ok (pos, VNil)
      else if tp = fieldTypeTiny then
        (if length paramValues < pos + 1 then Err ''malformed values''
         else if isUnsigned then Ok (pos + 1, VUint64 (unat (paramValues ! pos)))
         else Ok (pos + 1, VInt64 (sint (paramValues ! pos))))
      else if tp = fieldTypeShort \<or> tp = fieldTypeYear then
        (if length paramValues < pos + 2 then Err ''malformed values''
         else if isUnsigned then Ok (pos + 2, VUint64 (unat (le16 paramValues pos)))
         else Ok (pos + 2, VInt64 (sint (le16 paramValues pos))))
      else if tp = fieldTypeInt24 \<or> tp = fieldTypeLong then
        (if length paramValues < pos + 4 then Err ''malformed values''
         else if isUnsigned then Ok (pos + 4, VUint64 (unat (le32 paramValues pos)))
         else Ok (pos + 4, VInt64 (sint (le32 paramValues pos))))
      else if tp = fieldTypeLongLong then
        (if length paramValues < pos + 8 then Err ''malformed values''
         else if isUnsigned then Ok (pos + 8, VUint64 (unat (le64 paramValues pos)))
         else Ok (pos + 8, VInt64 (sint (le64 paramValues pos))))
      else if tp = fieldTypeFloat then
        (if length paramValues < pos + 4 then Err ''malformed values''
         else Ok (pos + 4, VFloat32 (le32 paramValues pos)))
      else if tp = fieldTypeDouble then
        (if length paramValues < pos + 8 then Err ''malformed values''
         else Ok (pos + 8, VFloat64 (le64 paramValues pos)))
      else if tp = fieldTypeDate \<or> tp = fieldTypeTimestamp \<or> tp = fieldTypeDateTime then
        (if length paramValues < pos + 1 then Err ''malformed values''
         else
           (let len = paramValues ! pos in
            if len = 0 then Ok (pos + 1, VString ''0000-00-00 00:00:00'')
            else if len = 4 then
              (case parseBinaryDate (pos + 1) paramValues of
                 Ok (pos1, s) \<Rightarrow> Ok (pos1, VString s) | Err e \<Rightarrow> Err e | Panic \<Rightarrow> Panic)
            else if len = 7 then
              (case parseBinaryDateTimeReply (pos + 1) paramValues of
                 Ok (pos1, s) \<Rightarrow> Ok (pos1, VString s) | Err e \<Rightarrow> Err e | Panic \<Rightarrow> Panic)
            else if len = 11 then
              (case parseBinaryTimestamp (pos + 1) paramValues spare of
                 Ok (pos1, s) \<Rightarrow> Ok (pos1, VString s) | Err e \<Rightarrow> Err e | Panic \<Rightarrow> Panic)
            else Err ''malformed values''))
      else if tp = fieldTypeTime then
        (if length paramValues < pos + 1 then Err ''malformed values''
         else
           (let len = paramValues ! pos in
            if len = 0 then Ok (pos + 1, VNil)
            else if len = 8 then
              (if length paramValues \<le> pos + 1 then Panic
               else if paramValues ! (pos + 1) > 1 then Err ''malformed values''
               else (case parseBinaryTime (pos + 2) paramValues (paramValues ! (pos + 1)) of
                       Ok (pos1, s) \<Rightarrow> Ok (pos1, VString s) | Err e \<Rightarrow> Err e | Panic \<Rightarrow> Panic))
            else if len = 12 then
              (if length paramValues \<le> pos + 1 then Panic
               else if paramValues ! (pos + 1) > 1 then Err ''malformed values''
               else (case parseBinaryTimeWithMS (pos + 2) paramValues spare (paramValues ! (pos + 1)) of
                       Ok (pos1, s) \<Rightarrow> Ok (pos1, VString s) | Err e \<Rightarrow> Err e | Panic \<Rightarrow> Panic))
            else Err ''malformed values''))
      else if tp = fieldTypeNewDecimal \<or> tp = fieldTypeDecimal \<or> tp = fieldTypeVarChar \<or>
              tp = fieldTypeVarString \<or> tp = fieldTypeString \<or> tp = fieldTypeEnum \<or>
              tp = fieldTypeSet \<or> tp = fieldTypeGeometry \<or> tp = fieldTypeBit then
        (if length paramValues < pos + 1 then Err ''malformed values''
         else (case parseLengthEncodedBytes (drop pos paramValues) of
                 Ok (v, isNull, n) \<Rightarrow>
                   if isNull then Ok (pos + n, VNil) else Ok (pos + n, VString (string_of_bytes v))
               | Err e \<Rightarrow> Err e
               | Panic \<Rightarrow> Panic))
      else if tp = fieldTypeBLOB \<or> tp = fieldTypeTinyBLOB \<or> tp = fieldTypeMediumBLOB \<or>
              tp = fieldTypeLongBLOB then
        (if length paramValues < pos + 1 then Err ''malformed values''
         else (case parseLengthEncodedBytes (drop pos paramValues) of
                 Ok (v, isNull, n) \<Rightarrow>
                   if isNull then Ok (pos + n, VNil) else Ok (pos + n, VBytes v)
               | Err e \<Rightarrow> Err e
               | Panic \<Rightarrow> Panic))
      else Err ''unknown field type'')"

text \<open>The loop \<^verbatim>\<open>for i := 0; i < stmt.NumParams; i++\<close> of \<^verbatim>\<open>parseExecParams\<close>, from the
  index \<open>i\<close> with the position \<open>pos\<close>; \<open>vals\<close> is the slice \<^verbatim>\<open>params\<close>.\<close>

function parseExecParams_loop :: "protocol \<Rightarrow> Stmt \<Rightarrow> byte list \<Rightarrow> byte list \<Rightarrow> byte list \<Rightarrow>
    byte list \<Rightarrow> nat \<Rightarrow> nat \<Rightarrow> value list \<Rightarrow> value list result" where
  "parseExecParams_loop c st nullBitmap paramTypes paramValues spare i pos vals =
     (if i < NumParams st then
        (if length nullBitmap \<le> i div 8 then Panic
         else if nullBitmap ! (i div 8) AND push_bit (i mod 8) 1 > 0 then
           parseExecParams_loop c st nullBitmap paramTypes paramValues spare (i + 1) pos
             (vals[i := VNil])
         else if 2 * i + 1 \<ge> length paramTypes then Err ''malformed types''
         else
           (case decodeParam (fieldTypeOf c (paramTypes ! (2 * i)))
                   (paramTypes ! (2 * i + 1) AND 0x80 > 0) paramValues spare pos of
              Ok (pos1, v) \<Rightarrow>
                parseExecParams_loop c st nullBitmap paramTypes paramValues spare (i + 1) pos1
                  (vals[i := v])
            | Err e \<Rightarrow> Err e
            | Panic \<Rightarrow> Panic))
      else Ok vals)"
  by pat_completeness auto
termination
  by (relation "measure (\<lambda>(c, st, nullBitmap, paramTypes, paramValues, spare, i, pos, vals).
        NumParams st - i)") auto

declare parseExecParams_loop.simps [simp del]

text \<open>\<^verbatim>\<open>parseExecParams\<close>: the loop under the deferred \<^verbatim>\<open>recover\<close>, which turns a panic
  into the error \<^verbatim>\<open>malformed packet\<close>. \<open>spare\<close> is what lies behind
  \<^verbatim>\<open>paramValues\<close> within its capacity.\<close>

definition parseExecParams :: "protocol \<Rightarrow> Stmt \<Rightarrow> byte list \<Rightarrow> byte list \<Rightarrow> byte list \<Rightarrow>
    byte list \<Rightarrow> value list result" where
  "parseExecParams c st nullBitmap paramTypes paramValues spare =
     (case parseExecParams_loop c st nullBitmap paramTypes paramValues spare 0 0
             (replicate (NumParams st) VNil) of
        Panic \<Rightarrow> Err ''malformed packet''
      | Ok vals \<Rightarrow> Ok vals
      | Err e \<Rightarrow> Err e)"

subsection \<open>The state machine (\<^verbatim>\<open>Handle\<close> and the request decoders)\<close>

text \<open>A method of the FSM either returns or panics; in both cases the session is left in
  some state, which the result carries.\<close>

datatype 'a flow = Done 'a | Panicked MySQLFSM

fun fsm_of :: "MySQLFSM flow \<Rightarrow> MySQLFSM" where
  "fsm_of (Done fsm) = fsm"
| "fsm_of (Panicked fsm) = fsm"

text \<open>\<^verbatim>\<open>fsm.set(to, msg...)\<close> (the rest of the method only logs) and
  \<^verbatim>\<open>setStatusWithNoChange\<close>.\<close>

definition set_fsm :: "MySQLFSM \<Rightarrow> fsmState \<Rightarrow> MySQLFSM" where
  "set_fsm fsm to = fsm\<lparr>state := to, changed := (state fsm \<noteq> to)\<rparr>"


text \<open>\<^verbatim>\<open>new(PacketRes)\<close> with the assignments of \<^verbatim>\<open>InitValue\<close>.\<close>

definition newPacketRes :: PacketRes where
  "newPacketRes =
     \<lparr>errNo = 0, errDesc = [], affectedRows = 0, insertId = 0, status = 0,
      parseTime = False, packetnum = 0, sqlBeginTime = 0, sqlEndTime = 0, columnNum = 0,
      bRows = None, tRows = None, readColEnd = False, ifReadColEndEofPacket = False,
      ifReadResEnd = False\<rparr>"







definition handleComStmtExecuteNoLoad :: "protocol \<Rightarrow> byte list \<Rightarrow> MySQLFSM \<Rightarrow> MySQLFSM flow" where
  "handleComStmtExecuteNoLoad c spare fsm =
     (if data fsm = [] then Panicked fsm
      else
        (case readUint32 (drop 1 (data fsm)) of
           (sid, data1, ok1) \<Rightarrow>
             if \<not> ok1 then Done (set_fsm fsm StateUnknown)
             else
               (case stmts fsm sid of
                  None \<Rightarrow> Done (set_fsm fsm StateUnknown)
                | Some st \<Rightarrow>
                    (case readBytesN data1 5 of
                       Ok (skipped, data2, ok2) \<Rightarrow>
                         if \<not> ok2 then Done (set_fsm fsm StateUnknown)
                         else if NumParams st > 0 then
                           (case readBytesN data2 (int ((NumParams st + 7) div 8)) of
                              Ok (nullBitmaps, data3, ok3) \<Rightarrow>
                                if \<not> ok3 then Done (set_fsm fsm StateUnknown)
                                else if length data3 < 1 + 2 * NumParams st
                                then Done (set_fsm fsm StateUnknown)
                                else
                                  (case (if data3 ! 0 = 1
                                         then Some (take (2 * NumParams st) (drop 1 data3),
                                                    drop (1 + 2 * NumParams st) data3,
                                                    st\<lparr>types :=
                                                        Some (take (2 * NumParams st) (drop 1 data3))\<rparr>,
                                                    fsm\<lparr>stmts := (stmts fsm)
                                                      (sid \<mapsto> st\<lparr>types :=
                                                        Some (take (2 * NumParams st) (drop 1 data3))\<rparr>)\<rparr>)
                                         else (case types st of
                                                 None \<Rightarrow> None
                                               | Some tps \<Rightarrow> Some (tps, drop 1 data3, st, fsm))) of
                                     None \<Rightarrow> Done (set_fsm fsm StateUnknown)
                                   | Some (paramTypes, paramValues, st1, fsm1) \<Rightarrow>
                                       (case parseExecParams c st1 nullBitmaps paramTypes paramValues spare of
                                          Ok vals \<Rightarrow>
                                            Done (set_fsm (fsm1\<lparr>stmt := st1, params := vals\<rparr>)
                                                    StateComStmtExecute)
                                        | Err e \<Rightarrow> Done (set_fsm fsm1 StateUnknown)
                                        | Panic \<Rightarrow> Panicked fsm1))
                            | Err e \<Rightarrow> Panicked fsm
                            | Panic \<Rightarrow> Panicked fsm)
                         else Done (set_fsm (fsm\<lparr>stmt := st, params := []\<rparr>) StateComStmtExecute)
                     | Err e \<Rightarrow> Panicked fsm
                     | Panic \<Rightarrow> Panicked fsm))))"










subsection \<open>Example data of the wire protocol\<close>

text \<open>The values of the MySQL client/server protocol for the constants that are
  parameters above: the command bytes, the handshake versions, the capability flags, the
  largest payload of a frame, and the bytes of the field types.\<close>

definition mysql_fieldTypeOf :: "byte \<Rightarrow> fieldType" where
  "mysql_fieldTypeOf b =
     (if b = 0x00 then fieldTypeDecimal else if b = 0x01 then fieldTypeTiny
      else if b = 0x02 then fieldTypeShort else if b = 0x03 then fieldTypeLong
      else if b = 0x04 then fieldTypeFloat else if b = 0x05 then fieldTypeDouble
      else if b = 0x06 then fieldTypeNULL else if b = 0x07 then fieldTypeTimestamp
      else if b = 0x08 then fieldTypeLongLong else if b = 0x09 then fieldTypeInt24
      else if b = 0x0a then fieldTypeDate else if b = 0x0b then fieldTypeTime
      else if b = 0x0c then fieldTypeDateTime else if b = 0x0d then fieldTypeYear
      else if b = 0x0f then fieldTypeVarChar else if b = 0x10 then fieldTypeBit
      else if b = 0xf6 then fieldTypeNewDecimal else if b = 0xf7 then fieldTypeEnum
      else if b = 0xf8 then fieldTypeSet else if b = 0xf9 then fieldTypeTinyBLOB
      else if b = 0xfa then fieldTypeMediumBLOB else if b = 0xfb then fieldTypeLongBLOB
      else if b = 0xfc then fieldTypeBLOB else if b = 0xfd then fieldTypeVarString
      else if b = 0xfe then fieldTypeString else if b = 0xff then fieldTypeGeometry
      else fieldTypeOther)"

definition mysql_protocol :: protocol where
  "mysql_protocol =
     \<lparr>maxPacketSize = 16777215,
      comQuit = 0x01, comQuery = 0x03, comStmtPrepare = 0x16, comStmtExecute = 0x17,
      comStmtClose = 0x19, handshakeV9 = 9, handshakeV10 = 10,
      clientProtocol41 = 0x200, clientSecureConn = 0x8000,
      clientPluginAuthLenEncClientData = 0x200000, clientConnectWithDB = 0x8,
      fieldTypeOf = mysql_fieldTypeOf\<rparr>"




text \<open>A session that knows one statement with one parameter, and holds an execute
  request for it whose only parameter is a date of length 4 with one byte of the four.\<close>

definition one_param_stmt :: Stmt where
  "one_param_stmt = \<lparr>ID = 1, Query = ''select ?'', NumParams = 1, types = None\<rparr>"

definition truncated_execute :: MySQLFSM where
  "truncated_execute =
     \<lparr>changed = False, state = StateInit, query = [],
      stmt = \<lparr>ID = 0, Query = [], NumParams = 0, types = None\<rparr>, params = [],
      schema = [], username = [], stmts = [1 \<mapsto> one_param_stmt],
      data = [0x17, 0x01, 0x00, 0x00, 0x00, 0x00, 0x01, 0x00, 0x00, 0x00, 0x00, 0x01,
              0x0a, 0x00, 0x04, 0xE5],
      packets = [], start = 0, count = 0, pr = newPacketRes\<rparr>"

text \<open>The same session with an execute request whose only parameter is a timestamp of
  length 11 with the seven bytes of date and time and without the four bytes of the
  microseconds, and four bytes that an earlier request left behind the buffer.\<close>

definition short_timestamp_execute :: MySQLFSM where
  "short_timestamp_execute =
     truncated_execute\<lparr>data := [0x17, 0x01, 0x00, 0x00, 0x00, 0x00, 0x01, 0x00, 0x00, 0x00, 0x00,
                                 0x01, 0x07, 0x00,
                                 0x0B, 0xE5, 0x07, 0x0B, 0x06, 0x0C, 0x1E, 0x2D]\<rparr>"

definition stale_bytes :: "byte list" where
  "stale_bytes = [0x40, 0xE2, 0x01, 0x00]"

text \<open>A fresh session, three frames (a \<^verbatim>\<open>COM_QUERY\<close> with \<^verbatim>\<open>select 1\<close>, a reply, a
  frame out of sequence) and a result reader that reads nothing.\<close>

definition idle_session :: MySQLFSM where
  "idle_session =
     \<lparr>changed = False, state = StateInit, query = [],
      stmt = \<lparr>ID = 0, Query = [], NumParams = 0, types = None\<rparr>, params = [],
      schema = [], username = [], stmts = Map.empty, data = [],
      packets = [], start = 0, count = 0, pr = newPacketRes\<rparr>"








text \<open>A protocol whose frames hold at most two bytes, and a buffer of three frames: a
  full one, a shorter one, a full one.\<close>

definition small_frames :: protocol where
  "small_frames = mysql_protocol\<lparr>maxPacketSize := 2\<rparr>"

definition full_frame :: MySQLPacket where
  "full_frame = \<lparr>Seq = 0, Len = 2, Data = [0x03, 0x61], Dir = TCPDirClientToServer, Time = 0\<rparr>"

definition short_frame :: MySQLPacket where
  "short_frame = \<lparr>Seq = 1, Len = 1, Data = [0x62], Dir = TCPDirClientToServer, Time = 0\<rparr>"

definition buffered_session :: MySQLFSM where
  "buffered_session = idle_session\<lparr>packets := [full_frame, short_frame, full_frame]\<rparr>"

section \<open>Theorems\<close>

subsection \<open>The two length-encoded-integer decoders\<close>

text \<open>Both decoders take the same number of bytes whenever both succeed, and agree on the
  one-byte form.\<close>

lemma lenenc_same_consumption:
  assumes "parseLengthEncodedInt b = Ok (v, False, n)"
    and "readLenEncUint b = (w, rest, True)"
  shows "rest = drop n b"
  using assms
  by (auto simp: parseLengthEncodedInt_def readLenEncUint_def split: if_splits)

lemma lenenc_agree_one_byte:
  assumes "b \<noteq> []" and "b ! 0 < 0xfb"
  shows "parseLengthEncodedInt b = Ok (ucast (b ! 0), False, 1)"
    and "readLenEncUint b = (ucast (b ! 0), drop 1 b, True)"
  using assms
  by (auto simp: parseLengthEncodedInt_def readLenEncUint_def)

text \<open>
  Claim C10: on every buffer on which both decoders succeed, \<^verbatim>\<open>parseLengthEncodedInt\<close>
  and \<^verbatim>\<open>readLenEncUint\<close> return the same integer and consume the same number of bytes.

  The code does not do this. On the three bytes \<^verbatim>\<open>fc 01 00\<close> both succeed and both
  consume three bytes, but \<^verbatim>\<open>parseLengthEncodedInt\<close> reads the two value bytes little
  endian (1) and \<^verbatim>\<open>readLenEncUint\<close> reads them big endian (256). The theorem evaluates
  both functions on that buffer.
\<close>

theorem lenenc_decoders_disagree:
  "parseLengthEncodedInt [0xfc, 0x01, 0x00] = Ok (1, False, 3) \<and>
   readLenEncUint [0xfc, 0x01, 0x00] = (256, [], True)"
  by (simp add: parseLengthEncodedInt_def readLenEncUint_def)

subsection \<open>Rows read from the replay server\<close>

lemma ReadRowValues_loop_all_converted:
  assumes "\<forall>x \<in> set z. x \<noteq> VNil \<longrightarrow> (\<exists>a. conv x = Inr a)"
  shows "ReadRowValues_loop conv z (rr, err) =
           (rr @ map (\<lambda>x. if x = VNil then VNil else VString (projr (conv x))) z,
            if \<forall>x \<in> set z. x = VNil then err else None)"
  using assms
proof (induction z arbitrary: rr err)
  case Nil
  then show ?case by simp
next
  case (Cons x xs)
  then show ?case by (cases "x = VNil") auto
qed

text \<open>When every non-null column converts, the row is appended whole: one entry per
  column, null or the converted string.\<close>

lemma ReadRowValues_complete_row:
  assumes "\<forall>x \<in> set z. x \<noteq> VNil \<longrightarrow> (\<exists>a. conv x = Inr a)"
  shows "ColValues (e_Rr (ReadRowValues conv z e)) =
           ColValues (e_Rr e) @ [map (\<lambda>x. if x = VNil then VNil else VString (projr (conv x))) z]"
  using ReadRowValues_loop_all_converted [OF assms, of "[]" None]
  by (simp add: ReadRowValues_def)

text \<open>
  Claim C2: every row that \<^verbatim>\<open>ReadRowValues\<close> appends has one entry per column of the
  source row; a partial row is never appended.

  The code guards the append with \<^verbatim>\<open>if err == nil\<close>, but \<^verbatim>\<open>err\<close> is assigned by every
  conversion in the loop, so after the loop it holds the outcome of the last non-null
  column only. When the conversion of a column fails and that of a later column
  succeeds, the row is appended without the failed column: for a source row of two
  columns, a row of one entry.
\<close>

theorem ReadRowValues_appends_partial_row:
  assumes "x \<noteq> VNil" and "conv x = Inl er"
    and "y \<noteq> VNil" and "conv y = Inr s"
  shows "ColValues (e_Rr (ReadRowValues conv [x, y] e)) = ColValues (e_Rr e) @ [[VString s]]"
  using assms by (simp add: ReadRowValues_def)

theorem ReadRowValues_appends_partial_row_witness:
  "ColValues (e_Rr (ReadRowValues example_conv [VOther ''chan'', VString ''a''] example_event))
   = [[VString ''a'']]"
  using ReadRowValues_appends_partial_row
    [of "VOther ''chan''" example_conv "OtherError None ''unsupported Scan''" "VString ''a''"
        "''a''" example_event]
  by (simp add: example_conv_def example_event_def)

subsection \<open>Rendering of null and empty columns\<close>

lemma ConvertResToStr_row_null_as_empty:
  assumes "conv (VString []) = Inr []"
  shows "ConvertResToStr_row conv (map (\<lambda>x. if x = VNil then VString [] else x) r) acc =
         ConvertResToStr_row conv r acc"
  using assms
proof (induction r arbitrary: acc)
  case Nil
  then show ?case by simp
next
  case (Cons x xs)
  then show ?case by (cases "x = VNil") (auto split: sum.splits)
qed

lemma ConvertResToStr_rows_null_as_empty:
  assumes "conv (VString []) = Inr []"
  shows "ConvertResToStr_rows conv (map (map (\<lambda>x. if x = VNil then VString [] else x)) v) acc =
         ConvertResToStr_rows conv v acc"
  using assms
  by (induction v arbitrary: acc)
     (auto simp: ConvertResToStr_row_null_as_empty split: sum.splits)

text \<open>
  Claim C9: \<^verbatim>\<open>ConvertResToStr\<close> renders a null column and an empty-string column as the
  same empty string, although the in-memory rows keep them apart.

  For every result set \<open>v\<close>, replacing each null by the empty string leaves the
  rendering unchanged; a null and an empty string each render as the empty string; and
  \<^verbatim>\<open>ReadRowValues\<close> records a null column as nil and an empty string column as the
  string, two different rows. The hypothesis says what \<^verbatim>\<open>ConvertAssignRows\<close> does with
  an empty string: it yields the empty string.
\<close>

theorem ConvertResToStr_collapses_null_and_empty:
  assumes "conv (VString []) = Inr []"
  shows "ConvertResToStr conv (map (map (\<lambda>x. if x = VNil then VString [] else x)) v) =
           ConvertResToStr conv v
       \<and> ConvertResToStr conv [[VNil]] = Inr [[[]]]
       \<and> ConvertResToStr conv [[VString []]] = Inr [[[]]]
       \<and> ColValues (e_Rr (ReadRowValues conv [VNil] e)) = ColValues (e_Rr e) @ [[VNil]]
       \<and> ColValues (e_Rr (ReadRowValues conv [VString []] e)) =
           ColValues (e_Rr e) @ [[VString []]]
       \<and> ReadRowValues conv [VNil] e \<noteq> ReadRowValues conv [VString []] e"
proof -
  have a: "ConvertResToStr conv (map (map (\<lambda>x. if x = VNil then VString [] else x)) v) =
           ConvertResToStr conv v"
    using assms by (simp add: ConvertResToStr_def ConvertResToStr_rows_null_as_empty)
  have b: "ConvertResToStr conv [[VNil]] = Inr [[[]]]"
    by (simp add: ConvertResToStr_def)
  have c: "ConvertResToStr conv [[VString []]] = Inr [[[]]]"
    using assms by (simp add: ConvertResToStr_def)
  have n: "ColValues (e_Rr (ReadRowValues conv [VNil] e)) = ColValues (e_Rr e) @ [[VNil]]"
    by (simp add: ReadRowValues_def)
  have s: "ColValues (e_Rr (ReadRowValues conv [VString []] e)) =
           ColValues (e_Rr e) @ [[VString []]]"
    using assms by (simp add: ReadRowValues_def)
  have d: "ReadRowValues conv [VNil] e \<noteq> ReadRowValues conv [VString []] e"
  proof
    assume "ReadRowValues conv [VNil] e = ReadRowValues conv [VString []] e"
    with n s have "ColValues (e_Rr e) @ [[VNil]] = ColValues (e_Rr e) @ [[VString []]]"
      by simp
    then show False by simp
  qed
  from a b c n s d show ?thesis by blast
qed

theorem ConvertResToStr_collapses_null_and_empty_witness:
  "ConvertResToStr example_conv [[VNil, VString ''a''], [VString [], VNil]]
   = Inr [[[], ''a''], [[], []]]"
proof -
  have h: "example_conv (VString []) = Inr []"
    by (simp add: example_conv_def)
  have "ConvertResToStr example_conv [[VNil, VString ''a''], [VString [], VNil]] =
        ConvertResToStr example_conv
          (map (map (\<lambda>x. if x = VNil then VString [] else x))
             [[VNil, VString ''a''], [VString [], VNil]])"
    using ConvertResToStr_collapses_null_and_empty
      [of example_conv "[[VNil, VString ''a''], [VString [], VNil]]" example_event, OF h]
    by simp
  then show ?thesis
    by (simp add: ConvertResToStr_def example_conv_def)
qed

subsection \<open>The replay handler: connections and statements\<close>

lemma getConn_live:
  "h_pool h \<noteq> None \<Longrightarrow> h_conn h \<noteq> None \<Longrightarrow> getConn srv h tr = (None, h, tr)"
  by (auto simp: getConn_def)

lemma getConn_ok_live:
  "getConn srv h tr = (None, h1, tr1) \<Longrightarrow> h_pool h1 \<noteq> None \<and> h_conn h1 \<noteq> None"
  by (auto simp: getConn_def h_open_def split: if_splits option.splits sum.splits prod.splits)

lemma getConn_Dsn:
  "getConn srv h tr = (r, h1, tr1) \<Longrightarrow> h_Dsn h1 = h_Dsn h"
  by (auto simp: getConn_def h_open_def split: if_splits option.splits sum.splits prod.splits)

lemma handshake_Dsn:
  "handshake srv h s tr = (r, h1, tr1) \<Longrightarrow> h_Dsn h1 = h_Dsn h"
  by (auto simp: handshake_def h_open_def dest!: getConn_Dsn split: if_splits option.splits sum.splits prod.splits)

lemma quit_Dsn: "h_Dsn (quit b h) = h_Dsn h"
  by (simp add: quit_def)

lemma getStmt_ok_live:
  assumes "getStmt srv h sid tr = (Inr hdl, h1, tr1)"
  shows "h_stmts h sid \<noteq> None" and "getStmt srv h1 sid tr' = (Inr hdl, h1, tr')"
  using assms
  by (auto simp: getStmt_def split: option.splits prod.splits)


lemma execute_Dsn:
  "execute conv srv h q e tr = (r, h1, e1, tr1) \<Longrightarrow> h_Dsn h1 = h_Dsn h"
  by (auto simp: execute_def Let_def dest: getConn_Dsn split: prod.splits option.splits sum.splits)

lemma getStmt_Dsn:
  "getStmt srv h sid tr = (r, h1, tr1) \<Longrightarrow> h_Dsn h1 = h_Dsn h"
  by (auto simp: getStmt_def dest: getConn_Dsn split: prod.splits option.splits)

lemma stmtExecute_Dsn:
  "stmtExecute conv srv h sid ps e tr = (r, h1, e1, tr1) \<Longrightarrow> h_Dsn h1 = h_Dsn h"
  by (auto simp: stmtExecute_def Let_def dest: getStmt_Dsn
      split: prod.splits option.splits sum.splits sqlStmt.splits)

lemma stmtPrepare_Dsn:
  "stmtPrepare srv h sid q tr = (r, h1, tr1) \<Longrightarrow> h_Dsn h1 = h_Dsn h"
  by (auto simp: stmtPrepare_def dest: getConn_Dsn split: prod.splits option.splits)

lemma RETRYCOMQUERY_Dsn:
  "RETRYCOMQUERY n conv srv h e tr = Some (r, h1, e1, tr1) \<Longrightarrow> h_Dsn h1 = h_Dsn h"
proof (induction n arbitrary: h e tr)
  case 0
  then show ?case by simp
next
  case (Suc n)
  obtain r' h' e' tr' where ex: "execute conv srv h (e_Query e) e tr = (r', h', e', tr')"
    by (cases "execute conv srv h (e_Query e) e tr") auto
  with Suc show ?case
    by (auto dest: execute_Dsn split: if_splits)
qed

lemma RETRYCOMSTMTEXECUTE_Dsn:
  "RETRYCOMSTMTEXECUTE n conv srv h e tr = Some (r, h1, e1, tr1) \<Longrightarrow> h_Dsn h1 = h_Dsn h"
proof (induction n arbitrary: h e tr)
  case 0
  then show ?case by simp
next
  case (Suc n)
  obtain r' h' e' tr' where
    ex: "stmtExecute conv srv h (e_StmtID e) (e_Params e) e tr = (r', h', e', tr')"
    by (cases "stmtExecute conv srv h (e_StmtID e) (e_Params e) e tr") auto
  with Suc show ?case
    by (auto dest: stmtExecute_Dsn split: if_splits)
qed

lemma ApplyEvent_switch_Dsn:
  assumes "ApplyEvent_switch n conv srv h e tr = Some (b, r, h1, e1, tr1)"
  shows "h_Dsn h1 = h_Dsn h"
proof (cases "e_Type e")
  case EventQuery
  with assms show ?thesis
    by (auto simp: ApplyEvent_switch_def dest: RETRYCOMQUERY_Dsn)
next
  case EventStmtPrepare
  with assms show ?thesis
    by (auto simp: ApplyEvent_switch_def dest: stmtPrepare_Dsn
        split: prod.splits option.splits goError.splits)
next
  case EventStmtExecute
  with assms show ?thesis
    by (auto simp: ApplyEvent_switch_def dest: RETRYCOMSTMTEXECUTE_Dsn split: option.splits)
next
  case EventStmtClose
  with assms show ?thesis
    by (auto simp: ApplyEvent_switch_def stmtClose_def)
next
  case EventHandshake
  with assms show ?thesis
    by (auto simp: ApplyEvent_switch_def quit_Dsn dest!: handshake_Dsn split: prod.splits)
next
  case EventQuit
  with assms show ?thesis
    by (auto simp: ApplyEvent_switch_def quit_Dsn)
next
  case EventOther
  with assms show ?thesis
    by (auto simp: ApplyEvent_switch_def)
qed

subsection \<open>Execute of an unknown statement\<close>

text \<open>
  Claim C5: for every Execute event whose statement id is not in the handler's statement
  cache, \<^verbatim>\<open>ApplyEvent\<close> returns the synthesized fault with number 10000 without a call
  to the target, and \<^verbatim>\<open>ReplayEventAndWriteRes\<close> records it on the event's replay-side
  result.

  \<^verbatim>\<open>ApplyEvent\<close> starts with the test \<^verbatim>\<open>len(h.cfg.Dsn) == 0\<close>: without a DSN it returns
  nil at once and the switch is never reached. The example below is an Execute event
  with an unknown statement id for which \<^verbatim>\<open>ApplyEvent\<close> returns nil.
\<close>

theorem ApplyEvent_skips_without_dsn:
  "e_Type unknown_execute = EventStmtExecute \<and>
   h_stmts capture_only_handler (e_StmtID unknown_execute) = None \<and>
   map_option fst (ApplyEvent 5 example_conv (failing_target lock_wait 0) capture_only_handler
       unknown_execute []) = Some None"
  by (simp add: ApplyEvent_def capture_only_handler_def unknown_execute_def example_handler_def
      example_event_def)


text \<open>
  Claim C5 as amended: with a DSN configured, \<^verbatim>\<open>ApplyEvent\<close> returns the fault
  \<open>MySQLError 10000\<close> with the handler, the event and the trace of calls unchanged (no
  call is made), and \<^verbatim>\<open>ReplayEventAndWriteRes\<close> hands the event on with
  \<^verbatim>\<open>ErrNO\<close> = 10000 and the message as \<^verbatim>\<open>ErrDesc\<close>; with an empty DSN
  \<^verbatim>\<open>ApplyEvent\<close> returns nil and makes no call either.
\<close>

theorem ApplyEvent_unknown_statement:
  assumes "e_Type e = EventStmtExecute" and "h_stmts h (e_StmtID e) = None"
  shows "(h_Dsn h \<noteq> [] \<longrightarrow>
            ApplyEvent (Suc n) conv srv h e tr =
              Some (Some (MySQLError 10000 (e_StmtID e @ '' is not exist , maybe prepare fail'')),
                    h, e, tr)
          \<and> ReplayEventAndWriteRes (Suc n) conv srv h e tr =
              Some (h, e\<lparr>e_Rr := (e_Rr e)\<lparr>ErrNO := 10000,
                      ErrDesc := e_StmtID e @ '' is not exist , maybe prepare fail''\<rparr>\<rparr>, tr))
       \<and> (h_Dsn h = [] \<longrightarrow> ApplyEvent (Suc n) conv srv h e tr = Some (None, h, e, tr))"
  using assms
  by (simp add: ApplyEvent_def ReplayEventAndWriteRes_def ApplyEvent_switch_def)

theorem ApplyEvent_unknown_statement_witness:
  "map_option fst (ApplyEvent 5 example_conv (failing_target lock_wait 0) example_handler
       unknown_execute [])
     = Some (Some (MySQLError 10000 ''99 is not exist , maybe prepare fail''))
   \<and> map_option (snd \<circ> snd \<circ> snd) (ApplyEvent 5 example_conv (failing_target lock_wait 0)
       example_handler unknown_execute []) = Some []
   \<and> map_option (ErrNO \<circ> e_Rr \<circ> fst \<circ> snd) (ReplayEventAndWriteRes 5 example_conv
       (failing_target lock_wait 0) example_handler unknown_execute []) = Some 10000
   \<and> map_option fst (ApplyEvent 5 example_conv (failing_target lock_wait 0) capture_only_handler
       unknown_execute []) = Some None"
proof -
  have t: "e_Type unknown_execute = EventStmtExecute"
    by (simp add: unknown_execute_def)
  have a: "h_stmts example_handler (e_StmtID unknown_execute) = None"
    by (simp add: unknown_execute_def example_handler_def)
  have b: "h_stmts capture_only_handler (e_StmtID unknown_execute) = None"
    by (simp add: unknown_execute_def example_handler_def capture_only_handler_def)
  have d: "h_Dsn example_handler \<noteq> []" "h_Dsn capture_only_handler = []"
    by (simp_all add: example_handler_def capture_only_handler_def)
  have i: "e_StmtID unknown_execute = ''99''"
    by (simp add: unknown_execute_def)
  show ?thesis
    using ApplyEvent_unknown_statement [OF t a, of 4 example_conv "failing_target lock_wait 0" "[]"]
      ApplyEvent_unknown_statement [OF t b, of 4 example_conv "failing_target lock_wait 0" "[]"]
      d i
    by simp
qed

subsection \<open>Retry on lock wait timeout\<close>

lemma clearColValues_clears:
  "clearColValues e = e\<lparr>e_Rr := (e_Rr e)\<lparr>ColValues := []\<rparr>\<rparr>"
  by (simp add: clearColValues_def)

lemma execute_live:
  assumes "getConn srv h tr = (None, h1, tr1)"
  shows "execute conv srv h q e tr =
          (case queryContext srv tr1 q of
             Inl err \<Rightarrow> (Some err, h1, e\<lparr>e_Rr := (e_Rr e)\<lparr>SqlStatment := q\<rparr>\<rparr>, tr1 @ [CQuery q])
           | Inr rows \<Rightarrow> (None, h1, readRows conv rows (e\<lparr>e_Rr := (e_Rr e)\<lparr>SqlStatment := q\<rparr>\<rparr>),
                          tr1 @ [CQuery q]))"
  using assms by (simp add: execute_def Let_def)

lemma RETRYCOMQUERY_lock_wait:
  assumes "getConn srv h tr = (None, h1, tr1)"
    and "\<forall>i<N. \<exists>m. queryContext srv (tr1 @ replicate i (CQuery (e_Query e))) (e_Query e)
                      = Inl (MySQLError 1205 m)"
    and "queryContext srv (tr1 @ replicate N (CQuery (e_Query e))) (e_Query e) = r"
    and "\<forall>m. r \<noteq> Inl (MySQLError 1205 m)"
    and "N < fuel"
  shows "RETRYCOMQUERY fuel conv srv h e tr =
           Some (case r of
                   Inl err \<Rightarrow>
                     (Some err, h1,
                      e\<lparr>e_Rr := (e_Rr e)\<lparr>SqlStatment := e_Query e,
                           ColValues := (if N = 0 then ColValues (e_Rr e) else [])\<rparr>\<rparr>,
                      tr1 @ replicate (Suc N) (CQuery (e_Query e)))
                 | Inr rows \<Rightarrow>
                     (None, h1,
                      readRows conv rows
                        (e\<lparr>e_Rr := (e_Rr e)\<lparr>SqlStatment := e_Query e,
                             ColValues := (if N = 0 then ColValues (e_Rr e) else [])\<rparr>\<rparr>),
                      tr1 @ replicate (Suc N) (CQuery (e_Query e))))"
  using assms
proof (induction N arbitrary: h tr tr1 e fuel)
  case 0
  then obtain f where f: "fuel = Suc f" by (cases fuel) auto
  from 0 show ?case
    by (cases r) (auto simp: f execute_live isLockWait_def split: goError.splits)
next
  case (Suc N)
  then obtain f where f: "fuel = Suc f" and lt: "N < f" by (cases fuel) auto
  let ?q = "e_Query e"
  let ?e1 = "e\<lparr>e_Rr := (e_Rr e)\<lparr>SqlStatment := ?q, ColValues := []\<rparr>\<rparr>"
  from Suc.prems(2) obtain m where m: "queryContext srv tr1 ?q = Inl (MySQLError 1205 m)"
    by force
  have live: "getConn srv h1 (tr1 @ [CQuery ?q]) = (None, h1, tr1 @ [CQuery ?q])"
    using getConn_ok_live [OF Suc.prems(1)] by (simp add: getConn_live)
  have step: "RETRYCOMQUERY fuel conv srv h e tr =
              RETRYCOMQUERY f conv srv h1 ?e1 (tr1 @ [CQuery ?q])"
    using Suc.prems(1) m
    by (simp add: f execute_live isLockWait_def clearColValues_clears)
  have h2: "\<forall>i<N. \<exists>m. queryContext srv ((tr1 @ [CQuery ?q]) @ replicate i (CQuery (e_Query ?e1)))
                 (e_Query ?e1) = Inl (MySQLError 1205 m)"
  proof (intro allI impI)
    fix i assume "i < N"
    then have "Suc i < Suc N" by simp
    with Suc.prems(2) obtain m' where
      "queryContext srv (tr1 @ replicate (Suc i) (CQuery ?q)) ?q = Inl (MySQLError 1205 m')"
      by blast
    then show "\<exists>m. queryContext srv ((tr1 @ [CQuery ?q]) @ replicate i (CQuery (e_Query ?e1)))
                 (e_Query ?e1) = Inl (MySQLError 1205 m)"
      by auto
  qed
  have h3: "queryContext srv ((tr1 @ [CQuery ?q]) @ replicate N (CQuery (e_Query ?e1))) (e_Query ?e1) = r"
    using Suc.prems(3) by simp
  have app: "(tr1 @ [CQuery ?q]) @ replicate (Suc N) (CQuery ?q) =
             tr1 @ replicate (Suc (Suc N)) (CQuery ?q)"
    by simp
  have e1: "?e1\<lparr>e_Rr := (e_Rr ?e1)\<lparr>SqlStatment := e_Query ?e1,
                ColValues := (if N = 0 then ColValues (e_Rr ?e1) else [])\<rparr>\<rparr> = ?e1"
    by simp
  have q1: "e_Query ?e1 = ?q" by simp
  note ih = Suc.IH [OF live h2 h3 Suc.prems(4) lt, unfolded e1 q1 app]
  show ?case
    unfolding step ih by (cases r) simp_all
qed

lemma stmtExecute_live:
  assumes "getStmt srv h sid tr = (Inr (SqlStmt q), h1, tr1)"
  shows "stmtExecute conv srv h sid ps e tr =
          (case stmtQueryContext srv tr1 q ps of
             Inl err \<Rightarrow> (Some err, h1, e\<lparr>e_Rr := (e_Rr e)\<lparr>SqlStatment := q, Values := ps\<rparr>\<rparr>,
                         tr1 @ [CStmtQuery q ps])
           | Inr rows \<Rightarrow> (None, h1,
                          readRows conv rows (e\<lparr>e_Rr := (e_Rr e)\<lparr>SqlStatment := q, Values := ps\<rparr>\<rparr>),
                          tr1 @ [CStmtQuery q ps]))"
  using assms by (simp add: stmtExecute_def Let_def)

lemma RETRYCOMSTMTEXECUTE_lock_wait:
  assumes "getStmt srv h (e_StmtID e) tr = (Inr (SqlStmt q), h1, tr1)"
    and "\<forall>i<N. \<exists>m. stmtQueryContext srv (tr1 @ replicate i (CStmtQuery q (e_Params e))) q (e_Params e)
                      = Inl (MySQLError 1205 m)"
    and "stmtQueryContext srv (tr1 @ replicate N (CStmtQuery q (e_Params e))) q (e_Params e) = r"
    and "\<forall>m. r \<noteq> Inl (MySQLError 1205 m)"
    and "N < fuel"
  shows "RETRYCOMSTMTEXECUTE fuel conv srv h e tr =
           Some (case r of
                   Inl err \<Rightarrow>
                     (Some err, h1,
                      e\<lparr>e_Rr := (e_Rr e)\<lparr>SqlStatment := q, Values := e_Params e,
                           ColValues := (if N = 0 then ColValues (e_Rr e) else [])\<rparr>\<rparr>,
                      tr1 @ replicate (Suc N) (CStmtQuery q (e_Params e)))
                 | Inr rows \<Rightarrow>
                     (None, h1,
                      readRows conv rows
                        (e\<lparr>e_Rr := (e_Rr e)\<lparr>SqlStatment := q, Values := e_Params e,
                             ColValues := (if N = 0 then ColValues (e_Rr e) else [])\<rparr>\<rparr>),
                      tr1 @ replicate (Suc N) (CStmtQuery q (e_Params e))))"
  using assms
proof (induction N arbitrary: h tr tr1 e fuel)
  case 0
  then obtain f where f: "fuel = Suc f" by (cases fuel) auto
  from 0 show ?case
    by (cases r) (auto simp: f stmtExecute_live isLockWait_def split: goError.splits)
next
  case (Suc N)
  then obtain f where f: "fuel = Suc f" and lt: "N < f" by (cases fuel) auto
  let ?c = "CStmtQuery q (e_Params e)"
  let ?e1 = "e\<lparr>e_Rr := (e_Rr e)\<lparr>SqlStatment := q, Values := e_Params e, ColValues := []\<rparr>\<rparr>"
  from Suc.prems(2) obtain m where
    m: "stmtQueryContext srv tr1 q (e_Params e) = Inl (MySQLError 1205 m)"
    by force
  have live: "getStmt srv h1 (e_StmtID ?e1) (tr1 @ [?c]) = (Inr (SqlStmt q), h1, tr1 @ [?c])"
    using getStmt_ok_live(2) [OF Suc.prems(1)] by simp
  have step: "RETRYCOMSTMTEXECUTE fuel conv srv h e tr =
              RETRYCOMSTMTEXECUTE f conv srv h1 ?e1 (tr1 @ [?c])"
    using Suc.prems(1) m
    by (simp add: f stmtExecute_live isLockWait_def clearColValues_clears)
  have h2: "\<forall>i<N. \<exists>m. stmtQueryContext srv ((tr1 @ [?c]) @ replicate i (CStmtQuery q (e_Params ?e1)))
                 q (e_Params ?e1) = Inl (MySQLError 1205 m)"
  proof (intro allI impI)
    fix i assume "i < N"
    then have "Suc i < Suc N" by simp
    with Suc.prems(2) obtain m' where
      "stmtQueryContext srv (tr1 @ replicate (Suc i) ?c) q (e_Params e) = Inl (MySQLError 1205 m')"
      by blast
    then show "\<exists>m. stmtQueryContext srv ((tr1 @ [?c]) @ replicate i (CStmtQuery q (e_Params ?e1)))
                 q (e_Params ?e1) = Inl (MySQLError 1205 m)"
      by auto
  qed
  have h3: "stmtQueryContext srv ((tr1 @ [?c]) @ replicate N (CStmtQuery q (e_Params ?e1)))
              q (e_Params ?e1) = r"
    using Suc.prems(3) by simp
  have app: "(tr1 @ [?c]) @ replicate (Suc N) ?c = tr1 @ replicate (Suc (Suc N)) ?c"
    by simp
  have e1: "?e1\<lparr>e_Rr := (e_Rr ?e1)\<lparr>SqlStatment := q, Values := e_Params ?e1,
                ColValues := (if N = 0 then ColValues (e_Rr ?e1) else [])\<rparr>\<rparr> = ?e1"
    by simp
  have q1: "e_Params ?e1 = e_Params e" by simp
  note ih = Suc.IH [OF live h2 h3 Suc.prems(4) lt, unfolded e1 q1 app]
  show ?case
    unfolding step ih by (cases r) simp_all
qed


text \<open>
  Claim C3: for a Query or an Execute event, when execution fails with the lock wait
  timeout (a \<^verbatim>\<open>*mysql.MySQLError\<close> with number 1205) exactly \<open>N\<close> times and then
  succeeds, \<^verbatim>\<open>ApplyEvent\<close> makes exactly \<open>N + 1\<close> execution attempts, for any
  \<open>N\<close>, with the row buffer cleared before each retry, and stops at the first attempt
  that succeeds or fails with a different error.

  The last part does not hold for every different error. In the example the target
  answers the query with the lock wait timeout, then with an error that wraps
  \<^verbatim>\<open>sql.ErrConnDone\<close>, then with rows: the second attempt fails with a different error,
  but \<^verbatim>\<open>ApplyEvent\<close> does not stop there. It leaves the lock-wait loop, reconnects and
  executes the query a third time, and returns nil.
\<close>

theorem ApplyEvent_lock_wait_then_connection_loss:
  "map_option fst (ApplyEvent 5 example_conv contended_target example_handler
       example_event []) = Some None
   \<and> map_option (snd \<circ> snd \<circ> snd) (ApplyEvent 5 example_conv contended_target
       example_handler example_event [])
     = Some [CQuery ''select c, d from t'', CQuery ''select c, d from t'', COpen ''test'', CConn,
             CQuery ''select c, d from t'']"
  by (simp add: ApplyEvent_def eval_nat_numeral ApplyEvent_switch_def execute_def getConn_def
      handshake_def h_open_def quit_def contended_target_def conn_closed_def lock_wait_def
      example_handler_def example_event_def isLockWait_def isConnLoss_def readRows_def
      ReadRowValues_def example_rows_def example_conv_def clearColValues_def)

text \<open>
  Claim C3 as amended: when execution fails with the lock wait timeout exactly \<open>N\<close>
  times and then succeeds, or then fails with a different error that is not of the
  connection-loss class, \<^verbatim>\<open>ApplyEvent\<close> makes exactly \<open>N + 1\<close> execution attempts,
  for any \<open>N\<close>, with the row buffer cleared before each retry, and returns that last
  outcome.

  The target answers the first \<open>N\<close> executions with error 1205 and the next with
  \<open>r\<close>, which is rows or an error that is neither 1205 nor one that \<^verbatim>\<open>ApplyEvent\<close>
  treats as a connection loss. For a Query event the connection is obtained by
  \<^verbatim>\<open>getConn\<close> (already pinned, or opened at the first attempt), for an Execute event
  the statement handle by \<^verbatim>\<open>getStmt\<close>. Then \<^verbatim>\<open>ApplyEvent\<close> returns, with any fuel above
  \<open>N + 1\<close>, the outcome of \<open>r\<close>; the trace has grown by exactly \<open>N + 1\<close>
  execution calls; and the row buffer holds the rows of the last attempt only.
  Execution happens only when a DSN is configured.

  \<^verbatim>\<open>ApplyEvent\<close> enters the two loops with a fresh buffer. The last two parts of the
  theorem are about the loops themselves, entered with any buffer: after at least one
  retry the buffer holds the rows of the last attempt only, whatever it held at the
  entry; without a retry the rows are appended to what it held.
\<close>

theorem ApplyEvent_lock_wait_retry:
  assumes "h_Dsn h \<noteq> []" and "Suc N < fuel"
    and "\<forall>m. r \<noteq> Inl (MySQLError 1205 m)"
    and "\<forall>err. r = Inl err \<longrightarrow> \<not> isConnLoss err"
  shows "(e_Type e = EventQuery \<and>
          getConn srv h tr = (None, h', tr') \<and>
          (\<forall>i<N. \<exists>m. queryContext srv (tr' @ replicate i (CQuery (e_Query e))) (e_Query e)
                      = Inl (MySQLError 1205 m)) \<and>
          queryContext srv (tr' @ replicate N (CQuery (e_Query e))) (e_Query e) = r
          \<longrightarrow>
          ApplyEvent fuel conv srv h e tr =
            Some (case r of
                    Inl err \<Rightarrow>
                      (Some err, h',
                       e\<lparr>e_Rr := (e_Rr e)\<lparr>ColValues := [], SqlStatment := e_Query e\<rparr>\<rparr>,
                       tr' @ replicate (Suc N) (CQuery (e_Query e)))
                  | Inr rows \<Rightarrow>
                      (None, h',
                       readRows conv rows
                         (e\<lparr>e_Rr := (e_Rr e)\<lparr>ColValues := [], SqlStatment := e_Query e\<rparr>\<rparr>),
                       tr' @ replicate (Suc N) (CQuery (e_Query e)))))
       \<and> (e_Type e = EventStmtExecute \<and>
          getStmt srv h (e_StmtID e) tr = (Inr (SqlStmt q), h', tr') \<and>
          (\<forall>i<N. \<exists>m. stmtQueryContext srv (tr' @ replicate i (CStmtQuery q (e_Params e))) q
                        (e_Params e) = Inl (MySQLError 1205 m)) \<and>
          stmtQueryContext srv (tr' @ replicate N (CStmtQuery q (e_Params e))) q (e_Params e) = r
          \<longrightarrow>
          ApplyEvent fuel conv srv h e tr =
            Some (case r of
                    Inl err \<Rightarrow>
                      (Some err, h',
                       e\<lparr>e_Rr := (e_Rr e)\<lparr>ColValues := [], SqlStatment := q,
                            Values := e_Params e\<rparr>\<rparr>,
                       tr' @ replicate (Suc N) (CStmtQuery q (e_Params e)))
                  | Inr rows \<Rightarrow>
                      (None, h',
                       readRows conv rows
                         (e\<lparr>e_Rr := (e_Rr e)\<lparr>ColValues := [], SqlStatment := q,
                              Values := e_Params e\<rparr>\<rparr>),
                       tr' @ replicate (Suc N) (CStmtQuery q (e_Params e)))))
       \<and> (getConn srv h tr = (None, h', tr') \<and>
          (\<forall>i<N. \<exists>m. queryContext srv (tr' @ replicate i (CQuery (e_Query e))) (e_Query e)
                      = Inl (MySQLError 1205 m)) \<and>
          queryContext srv (tr' @ replicate N (CQuery (e_Query e))) (e_Query e) = r
          \<longrightarrow>
          RETRYCOMQUERY fuel conv srv h e tr =
            Some (case r of
                    Inl err \<Rightarrow>
                      (Some err, h',
                       e\<lparr>e_Rr := (e_Rr e)\<lparr>SqlStatment := e_Query e,
                            ColValues := (if N = 0 then ColValues (e_Rr e) else [])\<rparr>\<rparr>,
                       tr' @ replicate (Suc N) (CQuery (e_Query e)))
                  | Inr rows \<Rightarrow>
                      (None, h',
                       readRows conv rows
                         (e\<lparr>e_Rr := (e_Rr e)\<lparr>SqlStatment := e_Query e,
                              ColValues := (if N = 0 then ColValues (e_Rr e) else [])\<rparr>\<rparr>),
                       tr' @ replicate (Suc N) (CQuery (e_Query e)))))
       \<and> (getStmt srv h (e_StmtID e) tr = (Inr (SqlStmt q), h', tr') \<and>
          (\<forall>i<N. \<exists>m. stmtQueryContext srv (tr' @ replicate i (CStmtQuery q (e_Params e))) q
                        (e_Params e) = Inl (MySQLError 1205 m)) \<and>
          stmtQueryContext srv (tr' @ replicate N (CStmtQuery q (e_Params e))) q (e_Params e) = r
          \<longrightarrow>
          RETRYCOMSTMTEXECUTE fuel conv srv h e tr =
            Some (case r of
                    Inl err \<Rightarrow>
                      (Some err, h',
                       e\<lparr>e_Rr := (e_Rr e)\<lparr>SqlStatment := q, Values := e_Params e,
                            ColValues := (if N = 0 then ColValues (e_Rr e) else [])\<rparr>\<rparr>,
                       tr' @ replicate (Suc N) (CStmtQuery q (e_Params e)))
                  | Inr rows \<Rightarrow>
                      (None, h',
                       readRows conv rows
                         (e\<lparr>e_Rr := (e_Rr e)\<lparr>SqlStatment := q, Values := e_Params e,
                              ColValues := (if N = 0 then ColValues (e_Rr e) else [])\<rparr>\<rparr>),
                       tr' @ replicate (Suc N) (CStmtQuery q (e_Params e)))))"
proof -
  from assms(2) obtain n where n: "fuel = Suc n" and lt: "N < n" by (cases fuel) auto
  from assms(2) have ltf: "N < fuel" by simp
  let ?e0 = "e\<lparr>e_Rr := (e_Rr e)\<lparr>ColValues := []\<rparr>\<rparr>"
  have query: "ApplyEvent fuel conv srv h e tr =
            Some (case r of
                    Inl err \<Rightarrow>
                      (Some err, h',
                       e\<lparr>e_Rr := (e_Rr e)\<lparr>ColValues := [], SqlStatment := e_Query e\<rparr>\<rparr>,
                       tr' @ replicate (Suc N) (CQuery (e_Query e)))
                  | Inr rows \<Rightarrow>
                      (None, h',
                       readRows conv rows
                         (e\<lparr>e_Rr := (e_Rr e)\<lparr>ColValues := [], SqlStatment := e_Query e\<rparr>\<rparr>),
                       tr' @ replicate (Suc N) (CQuery (e_Query e))))"
    if t: "e_Type e = EventQuery"
      and c: "getConn srv h tr = (None, h', tr')"
      and w: "\<forall>i<N. \<exists>m. queryContext srv (tr' @ replicate i (CQuery (e_Query e))) (e_Query e)
                      = Inl (MySQLError 1205 m)"
      and f: "queryContext srv (tr' @ replicate N (CQuery (e_Query e))) (e_Query e) = r"
  proof -
    have w0: "\<forall>i<N. \<exists>m. queryContext srv (tr' @ replicate i (CQuery (e_Query ?e0))) (e_Query ?e0)
                      = Inl (MySQLError 1205 m)"
      using w by simp
    have f0: "queryContext srv (tr' @ replicate N (CQuery (e_Query ?e0))) (e_Query ?e0) = r"
      using f by simp
    have eq: "?e0\<lparr>e_Rr := (e_Rr ?e0)\<lparr>SqlStatment := e_Query ?e0,
                 ColValues := (if N = 0 then ColValues (e_Rr ?e0) else [])\<rparr>\<rparr> =
              e\<lparr>e_Rr := (e_Rr e)\<lparr>ColValues := [], SqlStatment := e_Query e\<rparr>\<rparr>"
      by (cases e, cases "e_Rr e") simp
    note loop = RETRYCOMQUERY_lock_wait [OF c w0 f0 assms(3) lt, of conv, unfolded eq]
    show ?thesis
      using assms(1,4) t
      by (cases r) (simp_all add: ApplyEvent_def n ApplyEvent_switch_def loop)
  qed
  have exec: "ApplyEvent fuel conv srv h e tr =
            Some (case r of
                    Inl err \<Rightarrow>
                      (Some err, h',
                       e\<lparr>e_Rr := (e_Rr e)\<lparr>ColValues := [], SqlStatment := q,
                            Values := e_Params e\<rparr>\<rparr>,
                       tr' @ replicate (Suc N) (CStmtQuery q (e_Params e)))
                  | Inr rows \<Rightarrow>
                      (None, h',
                       readRows conv rows
                         (e\<lparr>e_Rr := (e_Rr e)\<lparr>ColValues := [], SqlStatment := q,
                              Values := e_Params e\<rparr>\<rparr>),
                       tr' @ replicate (Suc N) (CStmtQuery q (e_Params e))))"
    if t: "e_Type e = EventStmtExecute"
      and c: "getStmt srv h (e_StmtID e) tr = (Inr (SqlStmt q), h', tr')"
      and w: "\<forall>i<N. \<exists>m. stmtQueryContext srv (tr' @ replicate i (CStmtQuery q (e_Params e))) q
                        (e_Params e) = Inl (MySQLError 1205 m)"
      and f: "stmtQueryContext srv (tr' @ replicate N (CStmtQuery q (e_Params e))) q (e_Params e) = r"
  proof -
    have c1: "getStmt srv h (e_StmtID ?e0) tr = (Inr (SqlStmt q), h', tr')"
      using c by simp
    have w0: "\<forall>i<N. \<exists>m. stmtQueryContext srv (tr' @ replicate i (CStmtQuery q (e_Params ?e0))) q
                        (e_Params ?e0) = Inl (MySQLError 1205 m)"
      using w by simp
    have f0: "stmtQueryContext srv (tr' @ replicate N (CStmtQuery q (e_Params ?e0))) q (e_Params ?e0) = r"
      using f by simp
    have eq: "?e0\<lparr>e_Rr := (e_Rr ?e0)\<lparr>SqlStatment := q, Values := e_Params ?e0,
                 ColValues := (if N = 0 then ColValues (e_Rr ?e0) else [])\<rparr>\<rparr> =
              e\<lparr>e_Rr := (e_Rr e)\<lparr>ColValues := [], SqlStatment := q, Values := e_Params e\<rparr>\<rparr>"
      by (cases e, cases "e_Rr e") simp
    note loop = RETRYCOMSTMTEXECUTE_lock_wait [OF c1 w0 f0 assms(3) lt, of conv, unfolded eq]
    from getStmt_ok_live(1) [OF c] obtain stmt where st: "h_stmts h (e_StmtID e) = Some stmt"
      by auto
    show ?thesis
      using assms(1,4) t st
      by (cases r) (simp_all add: ApplyEvent_def n ApplyEvent_switch_def loop)
  qed
  have lq: "RETRYCOMQUERY fuel conv srv h e tr =
            Some (case r of
                    Inl err \<Rightarrow>
                      (Some err, h',
                       e\<lparr>e_Rr := (e_Rr e)\<lparr>SqlStatment := e_Query e,
                            ColValues := (if N = 0 then ColValues (e_Rr e) else [])\<rparr>\<rparr>,
                       tr' @ replicate (Suc N) (CQuery (e_Query e)))
                  | Inr rows \<Rightarrow>
                      (None, h',
                       readRows conv rows
                         (e\<lparr>e_Rr := (e_Rr e)\<lparr>SqlStatment := e_Query e,
                              ColValues := (if N = 0 then ColValues (e_Rr e) else [])\<rparr>\<rparr>),
                       tr' @ replicate (Suc N) (CQuery (e_Query e))))"
    if c: "getConn srv h tr = (None, h', tr')"
      and w: "\<forall>i<N. \<exists>m. queryContext srv (tr' @ replicate i (CQuery (e_Query e))) (e_Query e)
                      = Inl (MySQLError 1205 m)"
      and f: "queryContext srv (tr' @ replicate N (CQuery (e_Query e))) (e_Query e) = r"
    using RETRYCOMQUERY_lock_wait [OF c w f assms(3) ltf] .
  have lx: "RETRYCOMSTMTEXECUTE fuel conv srv h e tr =
            Some (case r of
                    Inl err \<Rightarrow>
                      (Some err, h',
                       e\<lparr>e_Rr := (e_Rr e)\<lparr>SqlStatment := q, Values := e_Params e,
                            ColValues := (if N = 0 then ColValues (e_Rr e) else [])\<rparr>\<rparr>,
                       tr' @ replicate (Suc N) (CStmtQuery q (e_Params e)))
                  | Inr rows \<Rightarrow>
                      (None, h',
                       readRows conv rows
                         (e\<lparr>e_Rr := (e_Rr e)\<lparr>SqlStatment := q, Values := e_Params e,
                              ColValues := (if N = 0 then ColValues (e_Rr e) else [])\<rparr>\<rparr>),
                       tr' @ replicate (Suc N) (CStmtQuery q (e_Params e))))"
    if c: "getStmt srv h (e_StmtID e) tr = (Inr (SqlStmt q), h', tr')"
      and w: "\<forall>i<N. \<exists>m. stmtQueryContext srv (tr' @ replicate i (CStmtQuery q (e_Params e))) q
                        (e_Params e) = Inl (MySQLError 1205 m)"
      and f: "stmtQueryContext srv (tr' @ replicate N (CStmtQuery q (e_Params e))) q (e_Params e) = r"
    using RETRYCOMSTMTEXECUTE_lock_wait [OF c w f assms(3) ltf] .
  from query exec lq lx show ?thesis by blast
qed

theorem ApplyEvent_lock_wait_retry_witness:
  "map_option fst (ApplyEvent 4 example_conv (failing_target lock_wait 2) example_handler
       example_event []) = Some None
   \<and> map_option (snd \<circ> snd \<circ> snd) (ApplyEvent 4 example_conv (failing_target lock_wait 2)
       example_handler example_event []) = Some (replicate 3 (CQuery ''select c, d from t''))
   \<and> map_option (ColValues \<circ> e_Rr \<circ> fst \<circ> snd \<circ> snd) (ApplyEvent 4 example_conv
       (failing_target lock_wait 2) example_handler example_event []) = Some [[VString ''1'', VNil]]
   \<and> map_option fst (ApplyEvent 4 example_conv (failing_target lock_wait 2) example_handler
       example_execute []) = Some None
   \<and> map_option (snd \<circ> snd \<circ> snd) (ApplyEvent 4 example_conv (failing_target lock_wait 2)
       example_handler example_execute [])
      = Some (replicate 3 (CStmtQuery ''select ?'' [VInt64 1]))
   \<and> map_option (ColValues \<circ> e_Rr \<circ> fst \<circ> snd \<circ> snd) (RETRYCOMQUERY 4 example_conv
       (failing_target lock_wait 2) example_handler stale_event [])
      = Some [[VString ''1'', VNil]]"
proof -
  let ?srv = "failing_target lock_wait 2"
  let ?r = "Inr example_rows :: goError + value list list"
  have a: "h_Dsn example_handler \<noteq> []"
    by (simp add: example_handler_def)
  have b: "Suc 2 < (4::nat)" by simp
  have c: "\<forall>m. ?r \<noteq> Inl (MySQLError 1205 m)" by simp
  have d: "\<forall>err. ?r = Inl err \<longrightarrow> \<not> isConnLoss err" by simp
  note t = ApplyEvent_lock_wait_retry [OF a b c d]
  have q1: "e_Type example_event = EventQuery"
    by (simp add: example_event_def)
  have q2: "getConn ?srv example_handler [] = (None, example_handler, [])"
    by (simp add: getConn_def example_handler_def)
  have q3: "\<forall>i<2. \<exists>m. queryContext ?srv ([] @ replicate i (CQuery (e_Query example_event)))
                 (e_Query example_event) = Inl (MySQLError 1205 m)"
    by (simp add: failing_target_def lock_wait_def less_Suc_eq numeral_2_eq_2)
  have q4: "queryContext ?srv ([] @ replicate 2 (CQuery (e_Query example_event)))
                 (e_Query example_event) = ?r"
    by (simp add: failing_target_def numeral_2_eq_2)
  have x1: "e_Type example_execute = EventStmtExecute"
    by (simp add: example_execute_def)
  have x2: "getStmt ?srv example_handler (e_StmtID example_execute) [] =
              (Inr (SqlStmt ''select ?''), example_handler, [])"
    by (simp add: getStmt_def example_handler_def example_execute_def example_event_def)
  have x3: "\<forall>i<2. \<exists>m. stmtQueryContext ?srv
               ([] @ replicate i (CStmtQuery ''select ?'' (e_Params example_execute)))
               ''select ?'' (e_Params example_execute) = Inl (MySQLError 1205 m)"
    by (simp add: failing_target_def lock_wait_def less_Suc_eq numeral_2_eq_2)
  have x4: "stmtQueryContext ?srv
               ([] @ replicate 2 (CStmtQuery ''select ?'' (e_Params example_execute)))
               ''select ?'' (e_Params example_execute) = ?r"
    by (simp add: failing_target_def numeral_2_eq_2)
  from t [where e = example_event and srv = ?srv and tr = "[]" and h' = example_handler
            and tr' = "[]" and conv = example_conv] q1 q2 q3 q4
  have query: "ApplyEvent 4 example_conv ?srv example_handler example_event [] =
      Some (None, example_handler,
            readRows example_conv example_rows
              (example_event\<lparr>e_Rr := (e_Rr example_event)\<lparr>ColValues := [],
                  SqlStatment := e_Query example_event\<rparr>\<rparr>),
            [] @ replicate (Suc 2) (CQuery (e_Query example_event)))"
    by simp
  from t [where e = example_execute and srv = ?srv and tr = "[]" and h' = example_handler
            and tr' = "[]" and conv = example_conv and q = "''select ?''"] x1 x2 x3 x4
  have exec: "ApplyEvent 4 example_conv ?srv example_handler example_execute [] =
      Some (None, example_handler,
            readRows example_conv example_rows
              (example_execute\<lparr>e_Rr := (e_Rr example_execute)\<lparr>ColValues := [],
                  SqlStatment := ''select ?'', Values := e_Params example_execute\<rparr>\<rparr>),
            [] @ replicate (Suc 2) (CStmtQuery ''select ?'' (e_Params example_execute)))"
    by simp
  have s1: "e_Query stale_event = e_Query example_event"
    by (simp add: stale_event_def)
  from t [where e = stale_event and srv = ?srv and tr = "[]" and h' = example_handler
            and tr' = "[]" and conv = example_conv] q2 q3 q4
  have loop: "RETRYCOMQUERY 4 example_conv ?srv example_handler stale_event [] =
      Some (None, example_handler,
            readRows example_conv example_rows
              (stale_event\<lparr>e_Rr := (e_Rr stale_event)\<lparr>SqlStatment := e_Query stale_event,
                  ColValues := []\<rparr>\<rparr>),
            [] @ replicate (Suc 2) (CQuery (e_Query stale_event)))"
    by (simp add: s1)
  show ?thesis
    unfolding query exec loop
    by (simp add: readRows_def ReadRowValues_def example_rows_def example_conv_def
        example_event_def example_execute_def stale_event_def numeral_3_eq_3)
qed

subsection \<open>Reconnect on connection loss\<close>

text \<open>
  Claim C1: when the dispatch of an event fails with a connection-loss-class fault
  (deadline exceeded, connection closed, invalid connection), \<^verbatim>\<open>ApplyEvent\<close> tears the
  connection down, reconnects once with the last known schema and retries the event
  exactly once; a failure of that retry is the final outcome.

  The code does not do this for the faults as the driver returns them. The test after
  the switch compares \<^verbatim>\<open>errors.Unwrap(err)\<close> with the three sentinels, and
  \<^verbatim>\<open>errors.Unwrap\<close> of a sentinel itself is nil: when a query or an execute fails with
  \<^verbatim>\<open>sql.ErrConnDone\<close> (or with any other error that wraps nothing and is not the lock
  wait timeout), \<^verbatim>\<open>ApplyEvent\<close> returns that error after the one attempt. The trace
  ends with the failed execution, so that there is no reconnect and no retry, and the
  handler is the one the attempt left, with its pool, its connection and its
  statements: there is no teardown.
\<close>

theorem ApplyEvent_unwrapped_connection_loss:
  assumes "h_Dsn h \<noteq> []" and "Unwrap err = None" and "\<forall>m. err \<noteq> MySQLError 1205 m"
  shows "(e_Type e = EventQuery \<and> getConn srv h tr = (None, h', tr') \<and>
          queryContext srv tr' (e_Query e) = Inl err \<longrightarrow>
            ApplyEvent (Suc (Suc n)) conv srv h e tr =
              Some (Some err, h',
                    e\<lparr>e_Rr := (e_Rr e)\<lparr>ColValues := [], SqlStatment := e_Query e\<rparr>\<rparr>,
                    tr' @ [CQuery (e_Query e)]) \<and>
            h_pool h' \<noteq> None \<and> h_conn h' \<noteq> None)
       \<and> (e_Type e = EventStmtExecute \<and>
          getStmt srv h (e_StmtID e) tr = (Inr (SqlStmt q), h', tr') \<and>
          stmtQueryContext srv tr' q (e_Params e) = Inl err \<longrightarrow>
            ApplyEvent (Suc (Suc n)) conv srv h e tr =
              Some (Some err, h',
                    e\<lparr>e_Rr := (e_Rr e)\<lparr>ColValues := [], SqlStatment := q,
                         Values := e_Params e\<rparr>\<rparr>,
                    tr' @ [CStmtQuery q (e_Params e)]) \<and>
            h_stmts h' (e_StmtID e) \<noteq> None)"
proof -
  let ?e0 = "e\<lparr>e_Rr := (e_Rr e)\<lparr>ColValues := []\<rparr>\<rparr>"
  have nl: "\<not> isLockWait (Some err)"
    using assms(3) by (cases err) (auto simp: isLockWait_def)
  have nc: "\<not> isConnLoss err"
    using assms(2) by (simp add: isConnLoss_def)
  have query: "ApplyEvent (Suc (Suc n)) conv srv h e tr =
              Some (Some err, h',
                    e\<lparr>e_Rr := (e_Rr e)\<lparr>ColValues := [], SqlStatment := e_Query e\<rparr>\<rparr>,
                    tr' @ [CQuery (e_Query e)]) \<and>
            h_pool h' \<noteq> None \<and> h_conn h' \<noteq> None"
    if t: "e_Type e = EventQuery" and c: "getConn srv h tr = (None, h', tr')"
      and f: "queryContext srv tr' (e_Query e) = Inl err"
  proof -
    have x: "execute conv srv h (e_Query e) ?e0 tr =
             (Some err, h', e\<lparr>e_Rr := (e_Rr e)\<lparr>ColValues := [], SqlStatment := e_Query e\<rparr>\<rparr>,
              tr' @ [CQuery (e_Query e)])"
      using f by (simp add: execute_live [OF c])
    show ?thesis
      using assms(1) t nl nc getConn_ok_live [OF c]
      by (simp add: ApplyEvent_def ApplyEvent_switch_def x)
  qed
  have exec: "ApplyEvent (Suc (Suc n)) conv srv h e tr =
              Some (Some err, h',
                    e\<lparr>e_Rr := (e_Rr e)\<lparr>ColValues := [], SqlStatment := q,
                         Values := e_Params e\<rparr>\<rparr>,
                    tr' @ [CStmtQuery q (e_Params e)]) \<and>
            h_stmts h' (e_StmtID e) \<noteq> None"
    if t: "e_Type e = EventStmtExecute"
      and c: "getStmt srv h (e_StmtID e) tr = (Inr (SqlStmt q), h', tr')"
      and f: "stmtQueryContext srv tr' q (e_Params e) = Inl err"
  proof -
    have x: "stmtExecute conv srv h (e_StmtID e) (e_Params e) ?e0 tr =
             (Some err, h',
              e\<lparr>e_Rr := (e_Rr e)\<lparr>ColValues := [], SqlStatment := q, Values := e_Params e\<rparr>\<rparr>,
              tr' @ [CStmtQuery q (e_Params e)])"
      using f by (simp add: stmtExecute_live [OF c])
    from getStmt_ok_live(1) [OF c] obtain stmt where st: "h_stmts h (e_StmtID e) = Some stmt"
      by auto
    have l: "h_stmts h' (e_StmtID e) \<noteq> None"
      using getStmt_ok_live(2) [OF c, of tr'] getStmt_ok_live(1) by blast
    show ?thesis
      using assms(1) t nl nc st l
      by (simp add: ApplyEvent_def ApplyEvent_switch_def x)
  qed
  from query exec show ?thesis by blast
qed

theorem ApplyEvent_unwrapped_connection_loss_witness:
  "ApplyEvent 4 example_conv (failing_target sql_ErrConnDone 1) example_handler example_event []
     = Some (Some sql_ErrConnDone, example_handler,
             example_event\<lparr>e_Rr := (e_Rr example_event)\<lparr>ColValues := [],
                 SqlStatment := ''select c, d from t''\<rparr>\<rparr>,
             [CQuery ''select c, d from t''])
   \<and> h_conn example_handler = Some SqlConn"
proof -
  let ?srv = "failing_target sql_ErrConnDone 1"
  have a: "h_Dsn example_handler \<noteq> []"
    by (simp add: example_handler_def)
  have b: "Unwrap sql_ErrConnDone = None"
    by (simp add: sql_ErrConnDone_def)
  have c: "\<forall>m. sql_ErrConnDone \<noteq> MySQLError 1205 m"
    by (simp add: sql_ErrConnDone_def)
  have d: "e_Type example_event = EventQuery \<and>
           getConn ?srv example_handler [] = (None, example_handler, []) \<and>
           queryContext ?srv [] (e_Query example_event) = Inl sql_ErrConnDone"
    by (simp add: example_event_def getConn_def example_handler_def failing_target_def)
  from ApplyEvent_unwrapped_connection_loss [OF a b c, THEN conjunct1, THEN mp, OF d, of 2]
  show ?thesis
    by (simp add: example_event_def example_handler_def eval_nat_numeral)
qed

text \<open>Only an error that wraps a sentinel one level deep reaches the reconnect. For such
  an error the event is applied again after a successful reconnect, by \<^verbatim>\<open>goto LOOP\<close>
  and without a count of the rounds: in the example the target fails the query twice
  with the wrapped \<^verbatim>\<open>sql.ErrConnDone\<close> and then answers, and \<^verbatim>\<open>ApplyEvent\<close> returns
  nil after three attempts and two reconnects.\<close>

lemma ApplyEvent_connection_loss:
  assumes "h_Dsn h \<noteq> []"
    and "ApplyEvent_switch n conv srv h e tr = Some (False, Some err, h1, e1, tr1)"
    and "isConnLoss err"
  shows "ApplyEvent (Suc n) conv srv h e tr =
           (case handshake srv (quit True h1) (h_schema h1) tr1 of
              (Some err2, h2, tr2) \<Rightarrow> Some (Some err2, h2, e1, tr2)
            | (None, h2, tr2) \<Rightarrow> ApplyEvent n conv srv h2 e1 tr2)"
proof -
  have d: "h_Dsn h1 \<noteq> []"
    using ApplyEvent_switch_Dsn [OF assms(2)] assms(1) by simp
  obtain r2 h2 tr2 where hs: "handshake srv (quit True h1) (h_schema h1) tr1 = (r2, h2, tr2)"
    by (cases "handshake srv (quit True h1) (h_schema h1) tr1") auto
  have d2: "h_Dsn h2 \<noteq> []"
    using handshake_Dsn [OF hs] d by (simp add: quit_Dsn)
  have s: "h_schema (quit True h1) = h_schema h1"
    by (simp add: quit_def)
  show ?thesis
    using assms d2 hs
    by (cases r2) (simp_all add: ApplyEvent_def s)
qed

lemma ApplyEvent_retries_twice:
  "map_option fst (ApplyEvent 5 example_conv (failing_target conn_closed 2) example_handler
       example_event []) = Some None
   \<and> map_option (snd \<circ> snd \<circ> snd) (ApplyEvent 5 example_conv (failing_target conn_closed 2)
       example_handler example_event [])
     = Some [CQuery ''select c, d from t'', COpen ''test'', CConn,
             CQuery ''select c, d from t'', COpen ''test'', CConn,
             CQuery ''select c, d from t'']"
  by (simp add: ApplyEvent_def eval_nat_numeral ApplyEvent_switch_def execute_def getConn_def
      handshake_def h_open_def quit_def failing_target_def conn_closed_def example_handler_def
      example_event_def isLockWait_def isConnLoss_def readRows_def ReadRowValues_def
      example_rows_def example_conv_def)

text \<open>The teardown of the reconnect keeps the statement and its text and clears its
  handle: after the same run the statement \<open>7\<close> of the handler has its text and no
  handle, and the connection is the new one.\<close>

lemma ApplyEvent_reconnect_keeps_text:
  "map_option (\<lambda>r. h_stmts (fst (snd r)) ''7'') (ApplyEvent 5 example_conv
       (failing_target conn_closed 2) example_handler example_event [])
     = Some (Some \<lparr>s_query = ''select ?'', s_handle = None\<rparr>)
   \<and> map_option (\<lambda>r. h_conn (fst (snd r))) (ApplyEvent 5 example_conv
       (failing_target conn_closed 2) example_handler example_event []) = Some (Some SqlConn)"
  by (simp add: ApplyEvent_def eval_nat_numeral ApplyEvent_switch_def execute_def getConn_def
      handshake_def h_open_def quit_def failing_target_def conn_closed_def example_handler_def
      example_event_def isLockWait_def isConnLoss_def readRows_def ReadRowValues_def
      example_rows_def example_conv_def)

subsection \<open>Reassembly of a logical body\<close>

lemma load_scan_stop:
  assumes "i \<le> j" and "j \<le> length ps"
    and "\<forall>t. i \<le> t \<and> t < j \<longrightarrow> Len (ps ! t) = maxPacketSize c"
    and "j < length ps \<longrightarrow> Len (ps ! j) \<noteq> maxPacketSize c"
  shows "load_scan c ps i = j"
  using assms
proof (induction "j - i" arbitrary: i)
  case 0
  then have "i = j" by simp
  with "0.prems" show ?case by (subst load_scan.simps) auto
next
  case (Suc d)
  then have lt: "i < j" by simp
  with Suc.prems have "i < length ps" "Len (ps ! i) = maxPacketSize c" by auto
  then have "load_scan c ps i = load_scan c ps (i + 1)"
    by (subst load_scan.simps) simp
  moreover have "load_scan c ps (i + 1) = j"
    using Suc.hyps(1) [of "i + 1"] Suc.hyps(2) Suc.prems lt by auto
  ultimately show ?case by simp
qed

lemma load_write_concat:
  assumes "k \<le> Suc j" and "j < length ps"
  shows "load_write ps k j buf = buf @ concat (map Data (take (Suc j - k) (drop k ps)))"
  using assms
proof (induction "Suc j - k" arbitrary: k buf)
  case 0
  then have "k = Suc j" by simp
  then show ?case by (subst load_write.simps) simp
next
  case (Suc d)
  then have le: "k \<le> j" by simp
  then have kl: "k < length ps" using Suc.prems by simp
  have "load_write ps k j buf = load_write ps (k + 1) j (buf @ Data (ps ! k))"
    using le by (subst load_write.simps) simp
  also have "\<dots> = (buf @ Data (ps ! k)) @ concat (map Data (take (Suc j - (k + 1)) (drop (k + 1) ps)))"
    using Suc.hyps(1) [of "k + 1"] Suc.hyps(2) Suc.prems le by simp
  also have "\<dots> = buf @ concat (map Data (take (Suc j - k) (drop k ps)))"
  proof -
    have "drop k ps = ps ! k # drop (Suc k) ps"
      using kl by (simp add: Cons_nth_drop_Suc)
    moreover have "Suc j - k = Suc (j - k)" using le by simp
    ultimately show ?thesis by simp
  qed
  finally show ?case .
qed

lemma load_scan_props:
  "load_scan c ps i \<le> max i (length ps) \<and>
   (\<forall>t. i \<le> t \<and> t < load_scan c ps i \<longrightarrow> Len (ps ! t) = maxPacketSize c) \<and>
   (load_scan c ps i < length ps \<longrightarrow> Len (ps ! load_scan c ps i) \<noteq> maxPacketSize c)"
proof (induction c ps i rule: load_scan.induct)
  case (1 c ps j)
  show ?case
  proof (cases "j < length ps \<and> Len (ps ! j) = maxPacketSize c")
    case True
    then have eq: "load_scan c ps j = load_scan c ps (j + 1)"
      by (subst load_scan.simps) simp
    from "1" True have ih:
      "load_scan c ps (j + 1) \<le> max (j + 1) (length ps)"
      "\<forall>t. j + 1 \<le> t \<and> t < load_scan c ps (j + 1) \<longrightarrow> Len (ps ! t) = maxPacketSize c"
      "load_scan c ps (j + 1) < length ps \<longrightarrow>
         Len (ps ! load_scan c ps (j + 1)) \<noteq> maxPacketSize c"
      by simp_all
    have "\<forall>t. j \<le> t \<and> t < load_scan c ps (j + 1) \<longrightarrow> Len (ps ! t) = maxPacketSize c"
    proof (intro allI impI)
      fix t assume t: "j \<le> t \<and> t < load_scan c ps (j + 1)"
      show "Len (ps ! t) = maxPacketSize c"
      proof (cases "t = j")
        case True
        with \<open>j < length ps \<and> Len (ps ! j) = maxPacketSize c\<close> show ?thesis by simp
      next
        case False
        with t have "j + 1 \<le> t" by simp
        with t ih(2) show ?thesis by blast
      qed
    qed
    with ih True show ?thesis unfolding eq by auto
  next
    case False
    then have "load_scan c ps j = j"
      by (subst load_scan.simps) auto
    with False show ?thesis by auto
  qed
qed

lemma load_from_reach:
  assumes "i \<le> k" and "0 < k" and "k \<le> length ps"
    and "Len (ps ! (k - 1)) \<noteq> maxPacketSize c"
  shows "load_from c ps k i = load_from c ps k k"
  using assms
proof (induction "k - i" arbitrary: i rule: less_induct)
  case less
  show ?case
  proof (cases "i = k")
    case True
    then show ?thesis by simp
  next
    case False
    with less.prems have lt: "i < k" by simp
    define j where "j = load_scan c ps i"
    have ij: "i \<le> j" unfolding j_def by (rule load_scan_ge)
    have jk: "j \<le> k - 1"
    proof (rule ccontr)
      assume "\<not> j \<le> k - 1"
      then have "i \<le> k - 1 \<and> k - 1 < load_scan c ps i" using lt by (simp add: j_def)
      with load_scan_props [of c ps i] have "Len (ps ! (k - 1)) = maxPacketSize c" by blast
      with less.prems show False by simp
    qed
    have jl: "j < length ps" using jk less.prems by simp
    have step: "load_from c ps k i = load_from c ps k (j + 1)"
      using lt jl less.prems False
      by (subst load_from.simps) (simp add: j_def [symmetric] Let_def)
    have "load_from c ps k (j + 1) = load_from c ps k k"
      using less.hyps [of "j + 1"] less.prems ij jk lt by simp
    with step show ?thesis by simp
  qed
qed

lemma load_from_start:
  assumes "k = 0 \<or> (k \<le> length ps \<and> Len (ps ! (k - 1)) \<noteq> maxPacketSize c)"
  shows "load_from c ps k 0 = load_from c ps k k"
proof (cases "k = 0")
  case True
  then show ?thesis by simp
next
  case False
  with assms show ?thesis by (intro load_from_reach) auto
qed

text \<open>
  Claim C8: for every buffered frame list and every index \<open>k\<close> that begins a logical
  body, \<^verbatim>\<open>load(k)\<close> accumulates the consecutive frames from \<open>k\<close> whose length is the
  maximum frame size, stops at the first shorter frame, and on success leaves the working
  buffer equal to the concatenation of the payloads of the frames \<open>k\<close> to that
  terminator inclusive, returning true; it returns false, with nothing loaded, when the
  scan reaches the end of the list without a terminator.

  An index begins a logical body when it is 0 or the frame before it is not of the
  maximum size. If \<open>j\<close> is the first index from \<open>k\<close> of a frame that is not of the
  maximum size, \<^verbatim>\<open>load\<close> returns true, the buffer is the concatenation of the payloads
  of the frames \<open>k..j\<close>, and \<^verbatim>\<open>start\<close> and \<^verbatim>\<open>count\<close> delimit them; if every frame
  from \<open>k\<close> on is of the maximum size, \<^verbatim>\<open>load\<close> returns false and the session is
  unchanged.
\<close>

theorem load_reassembles:
  assumes "k = 0 \<or> (k \<le> length (packets fsm) \<and>
                    Len (packets fsm ! (k - 1)) \<noteq> maxPacketSize c)"
  shows "(k \<le> j \<and> j < length (packets fsm) \<and>
          (\<forall>t. k \<le> t \<and> t < j \<longrightarrow> Len (packets fsm ! t) = maxPacketSize c) \<and>
          Len (packets fsm ! j) \<noteq> maxPacketSize c
          \<longrightarrow> load c k fsm =
                (True, fsm\<lparr>data := concat (map Data (take (j + 1 - k) (drop k (packets fsm)))),
                          start := k, count := j - k + 1\<rparr>))
       \<and> ((\<forall>t. k \<le> t \<and> t < length (packets fsm) \<longrightarrow> Len (packets fsm ! t) = maxPacketSize c)
          \<longrightarrow> load c k fsm = (False, fsm))"
proof (intro conjI impI)
  let ?ps = "packets fsm"
  assume a: "k \<le> j \<and> j < length ?ps \<and>
          (\<forall>t. k \<le> t \<and> t < j \<longrightarrow> Len (?ps ! t) = maxPacketSize c) \<and>
          Len (?ps ! j) \<noteq> maxPacketSize c"
  then have sc: "load_scan c ?ps k = j"
    by (intro load_scan_stop) auto
  have "load_from c ?ps k k = Some (load_write ?ps k j [], k, j - k + 1)"
    using a sc by (subst load_from.simps) (simp add: Let_def)
  moreover have "load_write ?ps k j [] = concat (map Data (take (j + 1 - k) (drop k ?ps)))"
    using a load_write_concat [of k j ?ps "[]"] by simp
  ultimately show "load c k fsm =
      (True, fsm\<lparr>data := concat (map Data (take (j + 1 - k) (drop k ?ps))),
                start := k, count := j - k + 1\<rparr>)"
    using load_from_start [OF assms] by (simp add: load_def)
next
  let ?ps = "packets fsm"
  assume a: "\<forall>t. k \<le> t \<and> t < length ?ps \<longrightarrow> Len (?ps ! t) = maxPacketSize c"
  have "load_from c ?ps k k = None"
  proof (cases "k < length ?ps")
    case True
    have "load_scan c ?ps k = length ?ps"
      using a True by (intro load_scan_stop) auto
    then show ?thesis using True by (subst load_from.simps) (simp add: Let_def)
  next
    case False
    then show ?thesis by (subst load_from.simps) simp
  qed
  then show "load c k fsm = (False, fsm)"
    using load_from_start [OF assms] by (simp add: load_def)
qed

theorem load_reassembles_witness:
  "load small_frames 0 buffered_session =
     (True, buffered_session\<lparr>data := [0x03, 0x61, 0x62], start := 0, count := 2\<rparr>)
   \<and> load small_frames 2 buffered_session = (False, buffered_session)"
proof -
  note defs = small_frames_def mysql_protocol_def buffered_session_def idle_session_def
    full_frame_def short_frame_def
  have a: "load small_frames 0 buffered_session =
     (True, buffered_session\<lparr>data := [0x03, 0x61, 0x62], start := 0, count := 2\<rparr>)"
    using load_reassembles [where k = 0 and j = 1 and c = small_frames and fsm = buffered_session]
    by (simp add: defs less_Suc_eq)
  have h: "\<forall>t. 2 \<le> t \<and> t < length (packets buffered_session) \<longrightarrow>
             Len (packets buffered_session ! t) = maxPacketSize small_frames"
  proof (intro allI impI)
    fix t :: nat
    assume "2 \<le> t \<and> t < length (packets buffered_session)"
    then have "t = 2" by (simp add: defs)
    then show "Len (packets buffered_session ! t) = maxPacketSize small_frames"
      by (simp add: defs)
  qed
  have p: "(2::nat) = 0 \<or> (2 \<le> length (packets buffered_session) \<and>
             Len (packets buffered_session ! (2 - 1)) \<noteq> maxPacketSize small_frames)"
    by (simp add: defs)
  have b: "load small_frames 2 buffered_session = (False, buffered_session)"
    using load_reassembles [where k = 2 and j = 2 and c = small_frames
        and fsm = buffered_session, OF p] h
    by blast
  from a b show ?thesis by simp
qed

subsection \<open>Decoding of execute parameters\<close>

lemma decimal_length_bound: "n < 10 ^ w \<Longrightarrow> 0 < w \<Longrightarrow> length (decimal n) \<le> w"
proof (induction n arbitrary: w rule: decimal.induct)
  case (1 n)
  show ?case
  proof (cases "n < 10")
    case True
    then have "decimal n = [digit n]" by (subst decimal.simps) simp
    with "1.prems" show ?thesis by simp
  next
    case False
    then have d: "decimal n = decimal (n div 10) @ [digit (n mod 10)]"
      by (subst decimal.simps) simp
    from False "1.prems" obtain v where w: "w = Suc v" by (cases w) auto
    have "v \<noteq> 0"
    proof
      assume "v = 0"
      with w "1.prems" False show False by simp
    qed
    then have v: "0 < v" by simp
    have "n div 10 < 10 ^ v"
      using "1.prems" w by (simp add: less_mult_imp_div_less mult.commute)
    with "1.IH" False v have "length (decimal (n div 10)) \<le> v" by simp
    with d w show ?thesis by simp
  qed
qed

lemma zeropad_length: "n < 10 ^ w \<Longrightarrow> 0 < w \<Longrightarrow> length (zeropad w n) = w"
  using decimal_length_bound [of n w] by (simp add: zeropad_def)








subsection \<open>Malformed execute parameters\<close>

lemma parseExecParams_no_panic: "parseExecParams c st nb pt pv sp \<noteq> Panic"
  by (simp add: parseExecParams_def split: result.splits)

lemma readUint32_layout:
  assumes "length idb = 4"
  shows "readUint32 (idb @ rest) = (le32 idb 0, rest, True)"
proof -
  have n: "(idb @ rest) ! 0 = idb ! 0" "(idb @ rest) ! 1 = idb ! 1"
    "(idb @ rest) ! 2 = idb ! 2" "(idb @ rest) ! 3 = idb ! 3"
    using assms by (simp_all add: nth_append)
  have l: "\<not> length (idb @ rest) < 4" "drop 4 (idb @ rest) = rest"
    using assms by simp_all
  have z: "0 + 1 = (1::nat)" "0 + 2 = (2::nat)" "0 + 3 = (3::nat)" by simp_all
  show ?thesis
    unfolding readUint32_def le32_def n z if_not_P [OF l(1)] l(2) ..
qed

lemma readBytesN_layout:
  "readBytesN (xs @ rest) (int (length xs)) = Ok (xs, rest, True)"
  by (simp add: readBytesN_def)

lemma parseBinaryDateTimeReply_at:
  assumes "length dt = 7"
  shows "parseBinaryDateTimeReply 1 (l # dt) =
           Ok (8, zeropad 4 (unat (le16 dt 0)) @ ''-'' @ zeropad 2 (unat (dt ! 2)) @ ''-'' @
                  zeropad 2 (unat (dt ! 3)) @ '' '' @ zeropad 2 (unat (dt ! 4)) @ '':'' @
                  zeropad 2 (unat (dt ! 5)) @ '':'' @ zeropad 2 (unat (dt ! 6)))"
  using assms
  by (simp add: parseBinaryDateTimeReply_def parseBinaryDate_def le16_def numeral_2_eq_2)

lemma le32_behind:
  assumes "length xs = p"
  shows "le32 (xs @ sp) p = le32 sp 0"
  using assms by (simp add: le32_def nth_append numeral_2_eq_2)

lemma parseBinaryTimestamp_at:
  assumes "length dt = 7"
  shows "parseBinaryTimestamp 1 (l # dt) sp =
           (if length sp < 4 then Panic
            else Ok (12, zeropad 4 (unat (le16 dt 0)) @ ''-'' @ zeropad 2 (unat (dt ! 2)) @ ''-'' @
                  zeropad 2 (unat (dt ! 3)) @ '' '' @ zeropad 2 (unat (dt ! 4)) @ '':'' @
                  zeropad 2 (unat (dt ! 5)) @ '':'' @ zeropad 2 (unat (dt ! 6)) @ ''.'' @
                  zeropad 6 (unat (le32 sp 0))))"
proof -
  have b: "le32 (l # dt @ sp) 8 = le32 sp 0"
    using le32_behind [of "l # dt" 8 sp] assms by simp
  show ?thesis
    unfolding parseBinaryTimestamp_def parseBinaryDateTimeReply_at [OF assms]
    using assms by (simp add: b)
qed

lemma parseExecParams_short_timestamp:
  assumes "NumParams st = 1" and "fieldTypeOf c t = fieldTypeTimestamp" and "length dt = 7"
  shows "parseExecParams c st [0] [t, f] (11 # dt) sp =
     (if length sp < 4 then Err ''malformed packet''
      else Ok [VString (zeropad 4 (unat (le16 dt 0)) @ ''-'' @ zeropad 2 (unat (dt ! 2)) @ ''-'' @
                  zeropad 2 (unat (dt ! 3)) @ '' '' @ zeropad 2 (unat (dt ! 4)) @ '':'' @
                  zeropad 2 (unat (dt ! 5)) @ '':'' @ zeropad 2 (unat (dt ! 6)) @ ''.'' @
                  zeropad 6 (unat (le32 sp 0)))])"
proof -
  have dp: "decodeParam fieldTypeTimestamp u (11 # dt) sp 0 =
            (case parseBinaryTimestamp 1 (11 # dt) sp of
               Ok (pos1, s) \<Rightarrow> Ok (pos1, VString s) | Err e \<Rightarrow> Err e | Panic \<Rightarrow> Panic)" for u
    by (simp add: decodeParam_def)
  have l1: "parseExecParams_loop c st [0] [t, f] (11 # dt) sp i p vals = Ok vals"
    if "NumParams st \<le> i" for i p vals
    using that by (subst parseExecParams_loop.simps) simp
  have l0: "parseExecParams_loop c st [0] [t, f] (11 # dt) sp 0 0 [VNil] =
            (case decodeParam fieldTypeTimestamp (f AND 0x80 > 0) (11 # dt) sp 0 of
               Ok (pos1, v) \<Rightarrow>
                 parseExecParams_loop c st [0] [t, f] (11 # dt) sp (0 + 1) pos1 ([VNil][0 := v])
             | Err e \<Rightarrow> Err e | Panic \<Rightarrow> Panic)"
    using assms(1,2) by (subst parseExecParams_loop.simps) simp
  show ?thesis
    unfolding parseExecParams_def assms(1) replicate.simps One_nat_def l0 dp
      parseBinaryTimestamp_at [OF assms(3), unfolded One_nat_def]
    using assms(1) by (simp add: l1)
qed

text \<open>
  Claim C7: \<^verbatim>\<open>parseExecParams\<close> is total: for every null bitmap, type vector and value
  bytes, also short or malformed ones, it returns a list of parameters or an error value
  such as \<^verbatim>\<open>malformed packet\<close>, and never lets a panic out; on such an error its caller
  moves the session to the state Unknown and returns.

  The loop of \<^verbatim>\<open>parseExecParams\<close> is a total function (it ends after \<^verbatim>\<open>NumParams\<close>
  rounds). Every index expression of the source is a branch \<open>Panic\<close> taken when the index
  is not below the length, every slice expression one taken when its end is behind the
  capacity, and the deferred \<^verbatim>\<open>recover\<close> turns that branch into the error
  \<^verbatim>\<open>malformed packet\<close>. The theorem holds for all value bytes \<open>pv\<close> and all spare bytes
  \<open>sp\<close> behind them. Two short inputs are followed to the end. With an empty null
  bitmap and a parameter to read, the index panics and the result is
  \<^verbatim>\<open>malformed packet\<close>. A timestamp of length 11 of which the seven bytes of date and
  time are there and the four bytes of the microseconds are not is an error only when
  the capacity ends before them: with four spare bytes the slice expression reads them,
  and the result is a parameter, the timestamp with those bytes as microseconds.

  The caller, \<^verbatim>\<open>handleComStmtExecuteNoLoad\<close>, is followed on a request of the layout:
  command byte, four bytes of statement id, five bytes of flags and iteration count, the
  null bitmap, the new-types flag, the rest. Whether the types come with the request
  (flag 1) or from the statement, an error of \<^verbatim>\<open>parseExecParams\<close> ends the handler
  normally, in the state Unknown, and a list of parameters in the state
  ComStmtExecute. \<^verbatim>\<open>NumParams\<close> is a natural number here: it is read from two bytes of
  the prepare response.
\<close>

theorem parseExecParams_total:
  "((\<exists>vals. parseExecParams c st nb pt pv sp = Ok vals) \<or>
    (\<exists>e. parseExecParams c st nb pt pv sp = Err e))
   \<and> (parseExecParams_loop c st nb pt pv sp 0 0 (replicate (NumParams st) VNil) = Panic \<longrightarrow>
        parseExecParams c st nb pt pv sp = Err ''malformed packet'')
   \<and> (0 < NumParams st \<longrightarrow> parseExecParams c st [] pt pv sp = Err ''malformed packet'')
   \<and> (NumParams st = 1 \<and> fieldTypeOf c t = fieldTypeTimestamp \<and> length dt = 7 \<longrightarrow>
        parseExecParams c st [0] [t, f] (11 # dt) sp =
          (if length sp < 4 then Err ''malformed packet''
           else Ok [VString (zeropad 4 (unat (le16 dt 0)) @ ''-'' @ zeropad 2 (unat (dt ! 2)) @
                  ''-'' @ zeropad 2 (unat (dt ! 3)) @ '' '' @ zeropad 2 (unat (dt ! 4)) @ '':'' @
                  zeropad 2 (unat (dt ! 5)) @ '':'' @ zeropad 2 (unat (dt ! 6)) @ ''.'' @
                  zeropad 6 (unat (le32 sp 0)))]))
   \<and> (data fsm = cmd # idb @ five @ nullb @ flag # rest \<and> length idb = 4 \<and> length five = 5 \<and>
       stmts fsm (le32 idb 0) = Some s \<and> 0 < NumParams s \<and>
       length nullb = (NumParams s + 7) div 8 \<and> 2 * NumParams s \<le> length rest \<longrightarrow>
        (flag = 1 \<and>
         parseExecParams c (s\<lparr>types := Some (take (2 * NumParams s) rest)\<rparr>) nullb
           (take (2 * NumParams s) rest) (drop (2 * NumParams s) rest) sp = Err e \<longrightarrow>
           handleComStmtExecuteNoLoad c sp fsm =
             Done (set_fsm
                     (fsm\<lparr>stmts := (stmts fsm)
                        (le32 idb 0 \<mapsto> s\<lparr>types := Some (take (2 * NumParams s) rest)\<rparr>)\<rparr>)
                     StateUnknown))
      \<and> (flag \<noteq> 1 \<and> types s = Some tps \<and> parseExecParams c s nullb tps rest sp = Err e \<longrightarrow>
           handleComStmtExecuteNoLoad c sp fsm = Done (set_fsm fsm StateUnknown))
      \<and> (flag = 1 \<and>
         parseExecParams c (s\<lparr>types := Some (take (2 * NumParams s) rest)\<rparr>) nullb
           (take (2 * NumParams s) rest) (drop (2 * NumParams s) rest) sp = Ok vals \<longrightarrow>
           handleComStmtExecuteNoLoad c sp fsm =
             Done (set_fsm
                     (fsm\<lparr>stmts := (stmts fsm)
                        (le32 idb 0 \<mapsto> s\<lparr>types := Some (take (2 * NumParams s) rest)\<rparr>),
                         stmt := s\<lparr>types := Some (take (2 * NumParams s) rest)\<rparr>,
                         params := vals\<rparr>)
                     StateComStmtExecute))
      \<and> (flag \<noteq> 1 \<and> types s = Some tps \<and> parseExecParams c s nullb tps rest sp = Ok vals \<longrightarrow>
           handleComStmtExecuteNoLoad c sp fsm =
             Done (set_fsm (fsm\<lparr>stmt := s, params := vals\<rparr>) StateComStmtExecute)))"
proof -
  have total: "(\<exists>vals. parseExecParams c st nb pt pv sp = Ok vals) \<or>
    (\<exists>e. parseExecParams c st nb pt pv sp = Err e)"
    using parseExecParams_no_panic [of c st nb pt pv sp]
    by (cases "parseExecParams c st nb pt pv sp") auto
  have rec: "parseExecParams c st nb pt pv sp = Err ''malformed packet''"
    if "parseExecParams_loop c st nb pt pv sp 0 0 (replicate (NumParams st) VNil) = Panic"
    using that by (simp add: parseExecParams_def)
  have caller: "(flag = 1 \<and>
         parseExecParams c (s\<lparr>types := Some (take (2 * NumParams s) rest)\<rparr>) nullb
           (take (2 * NumParams s) rest) (drop (2 * NumParams s) rest) sp = Err e \<longrightarrow>
           handleComStmtExecuteNoLoad c sp fsm =
             Done (set_fsm
                     (fsm\<lparr>stmts := (stmts fsm)
                        (le32 idb 0 \<mapsto> s\<lparr>types := Some (take (2 * NumParams s) rest)\<rparr>)\<rparr>)
                     StateUnknown))
      \<and> (flag \<noteq> 1 \<and> types s = Some tps \<and> parseExecParams c s nullb tps rest sp = Err e \<longrightarrow>
           handleComStmtExecuteNoLoad c sp fsm = Done (set_fsm fsm StateUnknown))
      \<and> (flag = 1 \<and>
         parseExecParams c (s\<lparr>types := Some (take (2 * NumParams s) rest)\<rparr>) nullb
           (take (2 * NumParams s) rest) (drop (2 * NumParams s) rest) sp = Ok vals \<longrightarrow>
           handleComStmtExecuteNoLoad c sp fsm =
             Done (set_fsm
                     (fsm\<lparr>stmts := (stmts fsm)
                        (le32 idb 0 \<mapsto> s\<lparr>types := Some (take (2 * NumParams s) rest)\<rparr>),
                         stmt := s\<lparr>types := Some (take (2 * NumParams s) rest)\<rparr>,
                         params := vals\<rparr>)
                     StateComStmtExecute))
      \<and> (flag \<noteq> 1 \<and> types s = Some tps \<and> parseExecParams c s nullb tps rest sp = Ok vals \<longrightarrow>
           handleComStmtExecuteNoLoad c sp fsm =
             Done (set_fsm (fsm\<lparr>stmt := s, params := vals\<rparr>) StateComStmtExecute))"
    if d: "data fsm = cmd # idb @ five @ nullb @ flag # rest" and l4: "length idb = 4"
      and l5: "length five = 5" and s: "stmts fsm (le32 idb 0) = Some s" and n: "0 < NumParams s"
      and lb: "length nullb = (NumParams s + 7) div 8" and lr: "2 * NumParams s \<le> length rest"
  proof -
    define d1 where "d1 = five @ nullb @ flag # rest"
    define d2 where "d2 = nullb @ flag # rest"
    define d3 where "d3 = flag # rest"
    have ne: "data fsm \<noteq> []" by (simp add: d)
    have r1: "readUint32 (drop 1 (data fsm)) = (le32 idb 0, d1, True)"
      using readUint32_layout [OF l4] by (simp add: d d1_def)
    have r2: "readBytesN d1 5 = Ok (five, d2, True)"
      using readBytesN_layout [of five "nullb @ flag # rest"] l5 by (simp add: d1_def d2_def)
    have r3: "readBytesN d2 (int ((NumParams s + 7) div 8)) = Ok (nullb, d3, True)"
      using readBytesN_layout [of nullb "flag # rest"] lb by (simp add: d2_def d3_def)
    have g: "\<not> length d3 < 1 + 2 * NumParams s" "d3 ! 0 = flag" "drop 1 d3 = rest"
      "drop (1 + 2 * NumParams s) d3 = drop (2 * NumParams s) rest"
      "drop (Suc 0) d3 = rest" "drop (Suc (2 * NumParams s)) d3 = drop (2 * NumParams s) rest"
      "\<not> length d3 < Suc (2 * NumParams s)"
      using lr by (simp_all add: d3_def)
    have r1': "readUint32 (drop (Suc 0) (data fsm)) = (le32 idb 0, d1, True)"
      using r1 by simp
    have one: "handleComStmtExecuteNoLoad c sp fsm =
             Done (set_fsm
                     (fsm\<lparr>stmts := (stmts fsm)
                        (le32 idb 0 \<mapsto> s\<lparr>types := Some (take (2 * NumParams s) rest)\<rparr>)\<rparr>)
                     StateUnknown)"
      if f: "flag = 1" and p: "parseExecParams c (s\<lparr>types := Some (take (2 * NumParams s) rest)\<rparr>) nullb
           (take (2 * NumParams s) rest) (drop (2 * NumParams s) rest) sp = Err e"
      using n by (simp add: handleComStmtExecuteNoLoad_def ne r1 r1' r2 r3 g s f p)
    have two: "handleComStmtExecuteNoLoad c sp fsm = Done (set_fsm fsm StateUnknown)"
      if f: "flag \<noteq> 1" and t: "types s = Some tps"
        and p: "parseExecParams c s nullb tps rest sp = Err e"
      using n by (simp add: handleComStmtExecuteNoLoad_def ne r1 r1' r2 r3 g s f t p)
    have three: "handleComStmtExecuteNoLoad c sp fsm =
             Done (set_fsm
                     (fsm\<lparr>stmts := (stmts fsm)
                        (le32 idb 0 \<mapsto> s\<lparr>types := Some (take (2 * NumParams s) rest)\<rparr>),
                         stmt := s\<lparr>types := Some (take (2 * NumParams s) rest)\<rparr>,
                         params := vals\<rparr>)
                     StateComStmtExecute)"
      if f: "flag = 1" and p: "parseExecParams c (s\<lparr>types := Some (take (2 * NumParams s) rest)\<rparr>) nullb
           (take (2 * NumParams s) rest) (drop (2 * NumParams s) rest) sp = Ok vals"
      using n by (simp add: handleComStmtExecuteNoLoad_def ne r1 r1' r2 r3 g s f p)
    have four: "handleComStmtExecuteNoLoad c sp fsm =
             Done (set_fsm (fsm\<lparr>stmt := s, params := vals\<rparr>) StateComStmtExecute)"
      if f: "flag \<noteq> 1" and t: "types s = Some tps"
        and p: "parseExecParams c s nullb tps rest sp = Ok vals"
      using n by (simp add: handleComStmtExecuteNoLoad_def ne r1 r1' r2 r3 g s f t p)
    from one two three four show ?thesis by blast
  qed
  have short: "parseExecParams c st [] pt pv sp = Err ''malformed packet''" if "0 < NumParams st"
    using that by (simp add: parseExecParams_def parseExecParams_loop.simps [of _ _ _ _ _ _ 0])
  have stamp: "parseExecParams c st [0] [t, f] (11 # dt) sp =
          (if length sp < 4 then Err ''malformed packet''
           else Ok [VString (zeropad 4 (unat (le16 dt 0)) @ ''-'' @ zeropad 2 (unat (dt ! 2)) @
                  ''-'' @ zeropad 2 (unat (dt ! 3)) @ '' '' @ zeropad 2 (unat (dt ! 4)) @ '':'' @
                  zeropad 2 (unat (dt ! 5)) @ '':'' @ zeropad 2 (unat (dt ! 6)) @ ''.'' @
                  zeropad 6 (unat (le32 sp 0)))])"
    if "NumParams st = 1" "fieldTypeOf c t = fieldTypeTimestamp" "length dt = 7"
    using parseExecParams_short_timestamp [OF that] .
  from total rec short stamp caller show ?thesis by blast
qed

theorem parseExecParams_total_witness:
  "parseExecParams mysql_protocol (one_param_stmt\<lparr>types := Some [0x0a, 0x00]\<rparr>) [0x00]
     [0x0a, 0x00] [0x04, 0xE5] [] = Err ''malformed packet''
   \<and> state (fsm_of (handleComStmtExecuteNoLoad mysql_protocol [] truncated_execute)) =
       StateUnknown
   \<and> state (fsm_of (handleComStmtExecuteNoLoad mysql_protocol [] short_timestamp_execute)) =
       StateUnknown
   \<and> state (fsm_of (handleComStmtExecuteNoLoad mysql_protocol stale_bytes
                        short_timestamp_execute)) = StateComStmtExecute
   \<and> params (fsm_of (handleComStmtExecuteNoLoad mysql_protocol stale_bytes
                         short_timestamp_execute)) = [VString ''2021-11-06 12:30:45.123456'']"
proof -
  let ?dt = "[0xE5, 0x07, 0x0B, 0x06, 0x0C, 0x1E, 0x2D] :: byte list"
  let ?st = "one_param_stmt\<lparr>types := Some [0x07, 0x00]\<rparr>"
  have l: "le32 [0x01, 0x00, 0x00, 0x00] 0 = 1"
    by (simp add: le32_def)
  have p: "parseExecParams mysql_protocol (one_param_stmt\<lparr>types := Some [0x0a, 0x00]\<rparr>) [0x00]
     [0x0a, 0x00] [0x04, 0xE5] [] = Err ''malformed packet''"
    by (simp add: parseExecParams_def parseExecParams_loop.simps [of _ _ _ _ _ _ 0]
        one_param_stmt_def decodeParam_def mysql_protocol_def mysql_fieldTypeOf_def
        parseBinaryDate_def)
  note T = parseExecParams_total [where c = mysql_protocol and cmd = "0x17"
        and idb = "[0x01, 0x00, 0x00, 0x00]" and five = "[0x00, 0x01, 0x00, 0x00, 0x00]"
        and nullb = "[0x00]" and flag = 1 and s = one_param_stmt]
  have a: "handleComStmtExecuteNoLoad mysql_protocol [] truncated_execute =
        Done (set_fsm
                (truncated_execute\<lparr>stmts := (stmts truncated_execute)
                   (1 \<mapsto> one_param_stmt\<lparr>types := Some [0x0a, 0x00]\<rparr>)\<rparr>)
                StateUnknown)"
    using T [where fsm = truncated_execute and sp = "[]" and rest = "[0x0a, 0x00, 0x04, 0xE5]"
        and e = "''malformed packet''"] p
    by (simp add: l truncated_execute_def one_param_stmt_def)
  note S = T [where st = ?st and t = "0x07" and f = "0x00" and dt = ?dt
        and fsm = short_timestamp_execute and rest = "0x07 # 0x00 # 0x0B # ?dt"]
  have q: "parseExecParams mysql_protocol ?st [0x00] [0x07, 0x00] (0x0B # ?dt) [] =
             Err ''malformed packet''"
    using S [where sp = "[]"]
    by (simp add: one_param_stmt_def mysql_protocol_def mysql_fieldTypeOf_def)
  have r: "parseExecParams mysql_protocol ?st [0x00] [0x07, 0x00] (0x0B # ?dt) stale_bytes =
             Ok [VString ''2021-11-06 12:30:45.123456'']"
    using S [where sp = stale_bytes]
    by (simp add: one_param_stmt_def mysql_protocol_def mysql_fieldTypeOf_def stale_bytes_def
        le16_def le32_def zeropad_def decimal.simps digit_def)
  have b: "handleComStmtExecuteNoLoad mysql_protocol [] short_timestamp_execute =
        Done (set_fsm
                (short_timestamp_execute\<lparr>stmts := (stmts short_timestamp_execute)
                   (1 \<mapsto> ?st)\<rparr>)
                StateUnknown)"
    using S [where sp = "[]" and e = "''malformed packet''"] q
    by (simp add: l short_timestamp_execute_def truncated_execute_def one_param_stmt_def)
  have c: "handleComStmtExecuteNoLoad mysql_protocol stale_bytes short_timestamp_execute =
        Done (set_fsm
                (short_timestamp_execute\<lparr>stmts := (stmts short_timestamp_execute)
                   (1 \<mapsto> ?st), stmt := ?st,
                   params := [VString ''2021-11-06 12:30:45.123456'']\<rparr>)
                StateComStmtExecute)"
    using S [where sp = stale_bytes and vals = "[VString ''2021-11-06 12:30:45.123456'']"] r
    by (simp add: l short_timestamp_execute_def truncated_execute_def one_param_stmt_def)
  show ?thesis
    unfolding a b c using p by (simp add: set_fsm_def)
qed

subsection \<open>The step of the state machine\<close>



lemma set_fsm_keeps [simp]:
  "packets (set_fsm f s) = packets f" "pr (set_fsm f s) = pr f"
  by (simp_all add: set_fsm_def)






















end
